theory Spec2Isabelle
  imports Complex_Main "HOL-Library.AList"
begin

section \<open>Data model (types.ts)\<close>

text \<open>
  \<^verbatim>\<open>RiddleData\<close> and \<^verbatim>\<open>HistoryItem\<close> are the interfaces of \<^verbatim>\<open>types.ts\<close>. An optional
  field (\<^verbatim>\<open>news_topic?: string\<close>) is an \<open>option\<close>, with \<open>None\<close> for \<^verbatim>\<open>undefined\<close>.
  \<^verbatim>\<open>answerIndex\<close> is the schema's INTEGER, an \<open>int\<close> of any sign and size.
  A history entry's \<^verbatim>\<open>answer\<close> is declared \<^verbatim>\<open>string\<close>, but it is filled by an
  unchecked array read, so the model keeps \<^verbatim>\<open>undefined\<close> as \<open>None\<close>.
\<close>

record RiddleData =
  image_prompt :: string
  riddle_question :: string
  choices :: "string list"
  answerIndex :: int
  hints :: "string list"
  fun_fact :: string
  news_topic :: "string option"
  difficulty :: "string option"

record HistoryItem =
  item_id :: string
  timestamp :: int
  topic :: string
  question :: string
  answer :: "string option"
  item_fun_fact :: string
  image_url :: string
  item_difficulty :: "string option"

text \<open>Exceptions of the JavaScript runtime that the code catches or lets escape.\<close>

datatype js_exn = SyntaxError | TypeError | QuotaExceededError | Rejection | Error string

section \<open>The history store (services/storageService.ts)\<close>

text \<open>
  \<^verbatim>\<open>localStorage\<close> holds two keys. The value under \<^verbatim>\<open>newsquest_solved_history\<close> is a
  string that the code only ever hands to \<^verbatim>\<open>JSON.parse\<close>; it is kept by what
  \<^verbatim>\<open>JSON.parse\<close> does with it: \<open>Unparseable s\<close> is a string \<open>s\<close> on which
  \<^verbatim>\<open>JSON.parse\<close> throws a SyntaxError (the empty string among them), and
  \<open>Serialized h\<close> is the text \<^verbatim>\<open>JSON.stringify(h)\<close>, which \<^verbatim>\<open>JSON.parse\<close> reads back as
  \<open>h\<close> (an \<^verbatim>\<open>undefined\<close> field is dropped by stringify and is \<^verbatim>\<open>undefined\<close> again
  after the parse). Valid JSON that is not an array of entries is outside the declared
  type \<^verbatim>\<open>HistoryItem[]\<close> of \<^verbatim>\<open>getHistory\<close> and is not modelled.
\<close>

datatype stored = Unparseable string | Serialized "HistoryItem list"

record Storage =
  newsquest_solved_history :: "stored option"
  newsquest_streak :: "string option"

definition MAX_ITEMS :: nat where
  "MAX_ITEMS = 12"

text \<open>\<^verbatim>\<open>stored ? ... : []\<close>: a string is falsy exactly when it is empty.\<close>

fun falsy_stored :: "stored \<Rightarrow> bool" where
  "falsy_stored (Unparseable s) = (s = [])"
| "falsy_stored (Serialized h) = False"

fun JSON_parse_stored :: "stored \<Rightarrow> js_exn + HistoryItem list" where
  "JSON_parse_stored (Unparseable s) = Inl SyntaxError"
| "JSON_parse_stored (Serialized h) = Inr h"

text \<open>
  \<^verbatim>\<open>getHistory\<close>: the \<^verbatim>\<open>try\<close> block returns the parsed value, or \<^verbatim>\<open>[]\<close> when nothing
  is stored; the \<^verbatim>\<open>catch\<close> block returns \<^verbatim>\<open>[]\<close>.
\<close>

definition getHistory :: "Storage \<Rightarrow> HistoryItem list" where
  "getHistory st =
     (case newsquest_solved_history st of
        None \<Rightarrow> []
      | Some v \<Rightarrow>
          if falsy_stored v then []
          else (case JSON_parse_stored v of Inl e \<Rightarrow> [] | Inr h \<Rightarrow> h))"

text \<open>\<^verbatim>\<open>xs[i]\<close> on an array: \<^verbatim>\<open>undefined\<close> outside \<open>0 \<le> i < length\<close>, never an exception.\<close>

definition js_index :: "'a list \<Rightarrow> int \<Rightarrow> 'a option" where
  "js_index xs i = (if 0 \<le> i \<and> i < int (length xs) then Some (xs ! nat i) else None)"

text \<open>\<^verbatim>\<open>a || b\<close> on an optional string: \<^verbatim>\<open>undefined\<close> and \<^verbatim>\<open>""\<close> are falsy.\<close>

definition or_default :: "string option \<Rightarrow> string \<Rightarrow> string" where
  "or_default a b = (case a of None \<Rightarrow> b | Some s \<Rightarrow> if s = [] then b else s)"

text \<open>
  What one call of \<^verbatim>\<open>saveToHistory\<close> reads from outside: the token
  \<^verbatim>\<open>Date.now().toString() + Math.random().toString(36).substring(2)\<close>, the clock
  reading \<^verbatim>\<open>Date.now()\<close> of the timestamp, and the quota of the storage, as the set of
  lists whose serialisation \<^verbatim>\<open>localStorage.setItem\<close> accepts.
\<close>

record save_env =
  fresh_id :: string
  now :: int
  quota_ok :: "HistoryItem list \<Rightarrow> bool"

definition newItem :: "save_env \<Rightarrow> RiddleData \<Rightarrow> string \<Rightarrow> HistoryItem" where
  "newItem env riddle imageUrl =
     \<lparr> item_id = fresh_id env,
       timestamp = now env,
       topic = or_default (news_topic riddle) ''Mystery Topic'',
       question = riddle_question riddle,
       answer = js_index (choices riddle) (answerIndex riddle),
       item_fun_fact = fun_fact riddle,
       image_url = imageUrl,
       item_difficulty = None \<rparr>"

text \<open>\<^verbatim>\<open>localStorage.setItem(STORAGE_KEY, JSON.stringify(history))\<close>, which may throw.\<close>

definition setItem_history ::
  "(HistoryItem list \<Rightarrow> bool) \<Rightarrow> HistoryItem list \<Rightarrow> Storage \<Rightarrow> js_exn + Storage" where
  "setItem_history ok h st =
     (if ok h then Inr (st\<lparr>newsquest_solved_history := Some (Serialized h)\<rparr>)
      else Inl QuotaExceededError)"

text \<open>
  The \<^verbatim>\<open>while (history.length > 0)\<close> loop with its \<^verbatim>\<open>try\<close>/\<^verbatim>\<open>catch\<close>: a successful write
  returns, a failed one pops the last entry when more than one is left and breaks
  otherwise. The result is the returned list and the storage.
\<close>

function saveLoop ::
  "(HistoryItem list \<Rightarrow> bool) \<Rightarrow> HistoryItem list \<Rightarrow> Storage \<Rightarrow> HistoryItem list \<times> Storage" where
  "saveLoop ok h st =
     (if length h > 0 then
        (case setItem_history ok h st of
           Inr st' \<Rightarrow> (h, st')
         | Inl e \<Rightarrow> (if length h > 1 then saveLoop ok (butlast h) st else (h, st)))
      else (h, st))"
  by pat_completeness auto
termination
  by (relation "measure (\<lambda>(ok, h, st). length h)") auto

declare saveLoop.simps [simp del]

definition saveToHistory ::
  "save_env \<Rightarrow> RiddleData \<Rightarrow> string \<Rightarrow> Storage \<Rightarrow> HistoryItem list \<times> Storage" where
  "saveToHistory env riddle imageUrl st =
     (let item = newItem env riddle imageUrl;
          hist = getHistory st
      in if list_ex (\<lambda>h. question h = question item) hist then (hist, st)
         else (let hist1 = item # hist;
                   hist2 = (if length hist1 > MAX_ITEMS then take MAX_ITEMS hist1 else hist1)
               in saveLoop (quota_ok env) hist2 st))"

definition clearHistory :: "Storage \<Rightarrow> HistoryItem list \<times> Storage" where
  "clearHistory st = ([], st\<lparr>newsquest_solved_history := None\<rparr>)"

text \<open>
  Lines 128 to 134 of \<^verbatim>\<open>saveToHistory\<close> under one name: the new entry in front of the
  stored list, cut to \<^verbatim>\<open>MAX_ITEMS\<close>. It is the list the write loop starts from.
\<close>

definition candidate :: "save_env \<Rightarrow> RiddleData \<Rightarrow> string \<Rightarrow> Storage \<Rightarrow> HistoryItem list" where
  "candidate env riddle imageUrl st = take MAX_ITEMS (newItem env riddle imageUrl # getHistory st)"

text \<open>A sequence of \<^verbatim>\<open>saveToHistory\<close> calls, each with its own environment.\<close>

type_synonym call = "save_env \<times> RiddleData \<times> string"

fun record_calls :: "call list \<Rightarrow> Storage \<Rightarrow> Storage" where
  "record_calls [] st = st"
| "record_calls ((env, riddle, imageUrl) # cs) st =
     record_calls cs (snd (saveToHistory env riddle imageUrl st))"

definition empty_storage :: Storage where
  "empty_storage = \<lparr> newsquest_solved_history = None, newsquest_streak = None \<rparr>"

definition clocks :: "call list \<Rightarrow> int list" where
  "clocks cs = map (\<lambda>c. now (fst c)) cs"

text \<open>Newest first: along the list the timestamps never increase.\<close>

definition newest_first :: "HistoryItem list \<Rightarrow> bool" where
  "newest_first h \<longleftrightarrow> sorted_wrt (\<lambda>a b. timestamp b \<le> timestamp a) h"

definition store_inv :: "HistoryItem list \<Rightarrow> bool" where
  "store_inv h \<longleftrightarrow> length h \<le> MAX_ITEMS \<and> distinct (map question h)"

section \<open>JavaScript numbers and strings used by the streak (App.tsx)\<close>

text \<open>
  The streak is a JavaScript number that is an integer or, after a failed
  \<^verbatim>\<open>parseInt\<close>, \<^verbatim>\<open>NaN\<close>. Integers are unbounded here: the rounding of doubles
  beyond \<open>2 ^ 53\<close> is left out.
\<close>

datatype jsnum = NaN | Num int

fun js_add :: "jsnum \<Rightarrow> int \<Rightarrow> jsnum" where
  "js_add NaN k = NaN"
| "js_add (Num n) k = Num (n + k)"

text \<open>
  \<^verbatim>\<open>parseInt(s, 10)\<close>: leading white space is skipped, one sign is read, then the
  longest run of decimal digits; no digit gives \<^verbatim>\<open>NaN\<close>. Strings are byte lists, so
  the white space is the ASCII part of the language's \<^verbatim>\<open>StrWhiteSpaceChar\<close>.
\<close>

definition isWhiteSpace :: "char \<Rightarrow> bool" where
  "isWhiteSpace c \<longleftrightarrow> c \<in> set [CHR 0x09, CHR 0x0A, CHR 0x0B, CHR 0x0C, CHR 0x0D, CHR 0x20]"

definition digit_of :: "char \<Rightarrow> nat option" where
  "digit_of c =
     map_of [(CHR ''0'', 0), (CHR ''1'', 1), (CHR ''2'', 2), (CHR ''3'', 3), (CHR ''4'', 4),
             (CHR ''5'', 5), (CHR ''6'', 6), (CHR ''7'', 7), (CHR ''8'', 8), (CHR ''9'', 9)] c"

definition isDigit :: "char \<Rightarrow> bool" where
  "isDigit c \<longleftrightarrow> (case digit_of c of None \<Rightarrow> False | Some d \<Rightarrow> True)"

definition digits_value :: "string \<Rightarrow> nat" where
  "digits_value z = foldl (\<lambda>acc c. case digit_of c of None \<Rightarrow> acc | Some d \<Rightarrow> 10 * acc + d) 0 z"

definition parseInt10 :: "string \<Rightarrow> jsnum" where
  "parseInt10 s =
     (let s1 = dropWhile isWhiteSpace s;
          sign = (case s1 of [] \<Rightarrow> 1 | c # rest \<Rightarrow> if c = CHR ''-'' then - 1 else (1::int));
          s2 = (case s1 of [] \<Rightarrow> s1
                | c # rest \<Rightarrow> if c = CHR ''-'' \<or> c = CHR ''+'' then rest else s1);
          z = takeWhile isDigit s2
      in if z = [] then NaN else Num (sign * int (digits_value z)))"

text \<open>\<^verbatim>\<open>n.toString()\<close> of a number.\<close>

function decimal :: "nat \<Rightarrow> string" where
  "decimal n =
     (if n < 10 then [''0123456789'' ! n]
      else decimal (n div 10) @ [''0123456789'' ! (n mod 10)])"
  by pat_completeness auto
termination
  by (relation "measure (\<lambda>n. n)") auto

declare decimal.simps [simp del]

fun numberToString :: "jsnum \<Rightarrow> string" where
  "numberToString NaN = ''NaN''"
| "numberToString (Num n) = (if n < 0 then CHR ''-'' # decimal (nat (- n)) else decimal (nat n))"

section \<open>Session state (types.ts, App.tsx)\<close>

datatype Difficulty = Easy | Medium | Hard

datatype Status =
  Idle | Searching | Generating_riddle | Generating_image | Playing | Solved | Failed
  | Error_status | History

record GameState =
  status :: Status
  riddle :: "RiddleData option"
  imageUrl :: "string option"
  selectedAnswer :: "int option"
  hintsRevealed :: nat
  error :: "string option"
  score :: int

text \<open>
  \<^verbatim>\<open>GameAction\<close> with its \<^verbatim>\<open>payload: any\<close> typed by what each case of \<^verbatim>\<open>dispatch\<close>
  stores.
\<close>

datatype GameAction =
  START_SEARCH | START_GEN_RIDDLE | START_GEN_IMAGE | RIDDLE_READY RiddleData
  | IMAGE_READY string | ANSWER_SELECTED | REVEAL_HINT | RESET | ERROR string
  | OPEN_HISTORY | CLOSE_HISTORY

text \<open>
  The \<^verbatim>\<open>useState\<close> cells of the \<^verbatim>\<open>GameScreen\<close> component that the game logic reads
  (\<^verbatim>\<open>isImageOpen\<close> and \<^verbatim>\<open>shareState\<close> only drive the image dialog and the share button).
\<close>

record GameScreen =
  selected :: "int option"
  revealedHints :: nat
  showResult :: bool
  isCorrect :: bool

text \<open>
  The state of the \<^verbatim>\<open>App\<close> component, the local state of the \<^verbatim>\<open>GameScreen\<close> it has
  mounted (\<open>None\<close> while none is mounted), and \<^verbatim>\<open>localStorage\<close>. \<^verbatim>\<open>isMuted\<close> only
  reaches the audio service and is left out.
\<close>

record App =
  gameState :: GameState
  customTopic :: string
  app_difficulty :: Difficulty
  history :: "HistoryItem list"
  streak :: jsnum
  gameScreen :: "GameScreen option"
  localStorage :: Storage

definition initialGameState :: GameState where
  "initialGameState =
     \<lparr> status = Idle, riddle = None, imageUrl = None, selectedAnswer = None,
       hintsRevealed = 0, error = None, score = 0 \<rparr>"

definition initialScreen :: GameScreen where
  "initialScreen = \<lparr> selected = None, revealedHints = 0, showResult = False, isCorrect = False \<rparr>"

text \<open>
  The effect that runs after the first render (and again when \<^verbatim>\<open>isMuted\<close> changes):
  history and streak are read back from the storage.
\<close>

definition loadEffect :: "App \<Rightarrow> App" where
  "loadEffect a =
     (let a1 = a\<lparr>history := getHistory (localStorage a)\<rparr>
      in case newsquest_streak (localStorage a) of
           None \<Rightarrow> a1
         | Some savedStreak \<Rightarrow>
             if savedStreak = [] then a1 else a1\<lparr>streak := parseInt10 savedStreak\<rparr>)"

definition startApp :: "Storage \<Rightarrow> App" where
  "startApp st =
     loadEffect \<lparr> gameState = initialGameState, customTopic = [], app_difficulty = Medium,
                  history = [], streak = Num 0, gameScreen = None, localStorage = st \<rparr>"

text \<open>
  \<^verbatim>\<open>updateStreak\<close>: the state is set, then the streak is written with no \<^verbatim>\<open>try\<close> around
  the write, so a refused write escapes as an exception. \<open>writable\<close> says whether the
  storage accepts the write.
\<close>

definition updateStreak :: "bool \<Rightarrow> bool \<Rightarrow> App \<Rightarrow> js_exn + App" where
  "updateStreak increment writable a =
     (let newStreak = (if increment then js_add (streak a) 1 else Num 0);
          a1 = a\<lparr>streak := newStreak\<rparr>
      in if writable
         then Inr (a1\<lparr>localStorage :=
                      (localStorage a1)\<lparr>newsquest_streak := Some (numberToString newStreak)\<rparr>\<rparr>)
         else Inl QuotaExceededError)"

text \<open>\<^verbatim>\<open>dispatch\<close>: one equation per \<^verbatim>\<open>case\<close>; three action types have none.\<close>

fun dispatch :: "GameAction \<Rightarrow> App \<Rightarrow> App" where
  "dispatch START_SEARCH a =
     a\<lparr>gameState := (gameState a)\<lparr>status := Searching, error := None\<rparr>\<rparr>"
| "dispatch START_GEN_RIDDLE a =
     a\<lparr>gameState := (gameState a)\<lparr>status := Generating_riddle, error := None\<rparr>\<rparr>"
| "dispatch (RIDDLE_READY payload) a =
     a\<lparr>gameState := (gameState a)\<lparr>status := Generating_image, riddle := Some payload\<rparr>\<rparr>"
| "dispatch (IMAGE_READY payload) a =
     a\<lparr>gameState := (gameState a)\<lparr>status := Playing, imageUrl := Some payload\<rparr>\<rparr>"
| "dispatch RESET a =
     a\<lparr>gameState := (gameState a)\<lparr>status := Idle, riddle := None, imageUrl := None,
                                     selectedAnswer := None, hintsRevealed := 0, error := None\<rparr>,
       customTopic := []\<rparr>"
| "dispatch (ERROR payload) a =
     a\<lparr>gameState := (gameState a)\<lparr>status := Error_status, error := Some payload\<rparr>\<rparr>"
| "dispatch OPEN_HISTORY a = a\<lparr>gameState := (gameState a)\<lparr>status := History\<rparr>\<rparr>"
| "dispatch CLOSE_HISTORY a = a\<lparr>gameState := (gameState a)\<lparr>status := Idle\<rparr>\<rparr>"
| "dispatch START_GEN_IMAGE a = a"
| "dispatch ANSWER_SELECTED a = a"
| "dispatch REVEAL_HINT a = a"

text \<open>
  The condition under which \<^verbatim>\<open>App\<close> renders \<^verbatim>\<open>GameScreen\<close>, and the re-render after a
  state change: a screen that is no longer rendered loses its local state, a newly
  rendered one starts from the \<^verbatim>\<open>useState\<close> initial values, a screen that stays keeps
  its state.
\<close>

definition gameScreenShown :: "GameState \<Rightarrow> bool" where
  "gameScreenShown gs \<longleftrightarrow>
     (status gs = Playing \<or> status gs = Solved \<or> status gs = Failed) \<and>
     (case riddle gs of None \<Rightarrow> False | Some r \<Rightarrow> True) \<and>
     (case imageUrl gs of None \<Rightarrow> False | Some u \<Rightarrow> u \<noteq> [])"

definition render :: "App \<Rightarrow> App" where
  "render a =
     a\<lparr>gameScreen :=
         (if gameScreenShown (gameState a)
          then (case gameScreen a of None \<Rightarrow> Some initialScreen | Some l \<Rightarrow> Some l)
          else None)\<rparr>"

text \<open>
  The sub-state of \<^verbatim>\<open>playing\<close> that the screen shows: \<^verbatim>\<open>gameState.status\<close> is never set
  to \<^verbatim>\<open>'solved'\<close> or \<^verbatim>\<open>'failed'\<close>; the result panel (\<^verbatim>\<open>showResult\<close>, \<^verbatim>\<open>isCorrect\<close>) tells
  the two apart.
\<close>

definition subState :: "GameScreen \<Rightarrow> Status" where
  "subState l = (if showResult l then (if isCorrect l then Solved else Failed) else Playing)"

section \<open>Answering and hints (components/GameScreen.tsx, App.tsx)\<close>

text \<open>What one answer reads from outside: whether the streak write is accepted, and
  the environment of \<^verbatim>\<open>saveToHistory\<close>.\<close>

record select_env =
  streak_writable :: bool
  save :: save_env

definition handleGameComplete :: "select_env \<Rightarrow> bool \<Rightarrow> App \<Rightarrow> js_exn + App" where
  "handleGameComplete env correct a =
     (case updateStreak correct (streak_writable env) a of
        Inl e \<Rightarrow> Inl e
      | Inr a1 \<Rightarrow>
          (case riddle (gameState a) of
             None \<Rightarrow> Inr a1
           | Some r \<Rightarrow>
               (case imageUrl (gameState a) of
                  None \<Rightarrow> Inr a1
                | Some u \<Rightarrow>
                    if correct \<and> u \<noteq> [] then
                      (let updatedHistory = saveToHistory (save env) r u (localStorage a1)
                       in Inr (a1\<lparr>history := fst updatedHistory,
                                  localStorage := snd updatedHistory\<rparr>))
                    else Inr a1)))"

text \<open>
  \<^verbatim>\<open>handleSelect\<close> of the mounted screen, whose \<^verbatim>\<open>riddle\<close> prop is \<^verbatim>\<open>gameState.riddle\<close>.
  Without a mounted screen there is no handler to call and the state stays. \<open>Inl\<close> is
  an exception that escapes the handler; the state it leaves behind is not modelled.
  The sound and the confetti of the handler do not touch the state and are left out.
  A handler reads the state of the last render, and React renders again before the next
  click is handled, so each call is applied to the state the previous one left.
\<close>

definition handleSelect :: "select_env \<Rightarrow> int \<Rightarrow> App \<Rightarrow> js_exn + App" where
  "handleSelect env index a =
     (case gameScreen a of
        None \<Rightarrow> Inr a
      | Some l \<Rightarrow>
          (case riddle (gameState a) of
             None \<Rightarrow> Inr a
           | Some r \<Rightarrow>
               if showResult l then Inr a
               else (let correct = (index = answerIndex r);
                         l' = l\<lparr>selected := Some index, isCorrect := correct, showResult := True\<rparr>
                     in handleGameComplete env correct (a\<lparr>gameScreen := Some l'\<rparr>))))"

text \<open>\<^verbatim>\<open>revealHint\<close> of a screen with prop \<^verbatim>\<open>riddle\<close>, and the hint button \<open>idx\<close> with its
  \<^verbatim>\<open>disabled\<close> attribute: a disabled button does not call its handler.\<close>

definition revealHint :: "RiddleData \<Rightarrow> GameScreen \<Rightarrow> GameScreen" where
  "revealHint r l =
     (if revealedHints l < length (hints r) then l\<lparr>revealedHints := revealedHints l + 1\<rparr> else l)"

definition hintDisabled :: "GameScreen \<Rightarrow> nat \<Rightarrow> bool" where
  "hintDisabled l idx \<longleftrightarrow> revealedHints l > idx \<or> showResult l"

definition clickHint :: "RiddleData \<Rightarrow> nat \<Rightarrow> GameScreen \<Rightarrow> GameScreen" where
  "clickHint r idx l =
     (if idx < length (hints r) \<and> \<not> hintDisabled l idx then revealHint r l else l)"

section \<open>The generation pipeline (App.tsx, handleStartGame)\<close>

text \<open>
  The outcome of an awaited call as the handler sees it: a value, or a rejection with
  the \<^verbatim>\<open>message\<close> of the error (\<open>None\<close> when the error has none).
\<close>

datatype 'a awaited = Resolved 'a | Rejected "string option"

record services =
  startBGM :: "unit awaited"
  fetchTrendingNews :: "string option \<Rightarrow> string awaited"
  generateRiddle :: "string \<Rightarrow> Difficulty \<Rightarrow> RiddleData awaited"
  generateRiddleImage :: "string \<Rightarrow> string awaited"

text \<open>The \<^verbatim>\<open>catch\<close> block: \<^verbatim>\<open>error.message || "An unexpected error occurred."\<close>.\<close>

definition onRejected :: "string option \<Rightarrow> App \<Rightarrow> App" where
  "onRejected m a = render (dispatch (ERROR (or_default m ''An unexpected error occurred.'')) a)"

text \<open>
  The handler runs in pieces, one per \<^verbatim>\<open>await\<close>. Each piece is a function of the state
  at the moment the awaited call settles, since every \<^verbatim>\<open>dispatch\<close> updates the state of
  that moment (\<^verbatim>\<open>setGameState(prev => ...)\<close>).
\<close>

definition afterRiddle :: "RiddleData awaited \<Rightarrow> App \<Rightarrow> App" where
  "afterRiddle res a =
     (case res of
        Resolved riddleData \<Rightarrow> render (dispatch (RIDDLE_READY riddleData) a)
      | Rejected m \<Rightarrow> onRejected m a)"

definition afterImage :: "string awaited \<Rightarrow> App \<Rightarrow> App" where
  "afterImage res a =
     (case res of
        Resolved url \<Rightarrow> render (dispatch (IMAGE_READY url) a)
      | Rejected m \<Rightarrow> onRejected m a)"

text \<open>\<^verbatim>\<open>!topic.trim()\<close>: the topic is empty or white space only.\<close>

definition blank :: "string \<Rightarrow> bool" where
  "blank s \<longleftrightarrow> dropWhile isWhiteSpace s = []"

text \<open>The handler from the riddle request on, when nothing else happens in between.\<close>

definition generateFrom :: "services \<Rightarrow> string \<Rightarrow> Difficulty \<Rightarrow> App \<Rightarrow> App" where
  "generateFrom sv tp d a =
     (let a2 = render (dispatch START_GEN_RIDDLE a);
          res = generateRiddle sv tp d
      in case res of
           Rejected m \<Rightarrow> afterRiddle res a2
         | Resolved riddleData \<Rightarrow>
             afterImage (generateRiddleImage sv (image_prompt riddleData)) (afterRiddle res a2))"

definition handleStartGame :: "services \<Rightarrow> bool \<Rightarrow> string option \<Rightarrow> App \<Rightarrow> App" where
  "handleStartGame sv useTrending category a =
     (case startBGM sv of
        Rejected m \<Rightarrow> onRejected m a
      | Resolved u \<Rightarrow>
          if useTrending then
            (let a1 = render (dispatch START_SEARCH a)
             in case fetchTrendingNews sv category of
                  Rejected m \<Rightarrow> onRejected m a1
                | Resolved tp \<Rightarrow> generateFrom sv tp (app_difficulty a) a1)
          else if blank (customTopic a) then a
          else generateFrom sv (customTopic a) (app_difficulty a) a)"

text \<open>
  The topic the riddle request is made with, \<open>tp\<close>: the background music started, and
  either the trending headline was fetched or the text field holds a topic that is not
  blank.
\<close>

definition topic_used :: "services \<Rightarrow> bool \<Rightarrow> string option \<Rightarrow> App \<Rightarrow> string \<Rightarrow> bool" where
  "topic_used sv useTrending category a tp \<longleftrightarrow>
     startBGM sv = Resolved () \<and>
     (if useTrending then fetchTrendingNews sv category = Resolved tp
      else \<not> blank (customTopic a) \<and> tp = customTopic a)"

section \<open>The riddle client (services/geminiService.ts)\<close>

text \<open>
  A value that \<^verbatim>\<open>JSON.parse\<close> returns. Finite numbers are rationals. An array carries
  its elements and the named properties assigned to it afterwards (none after the parse).
\<close>

datatype json =
  JNull | JBool bool | JNum rat | JStr string
  | JArr "json list" "(string \<times> json) list"
  | JObj "(string \<times> json) list"

text \<open>
  \<^verbatim>\<open>data.k = v\<close> in a module, which is strict code: an object or an array takes the
  property, \<^verbatim>\<open>null\<close> and the primitive values raise a TypeError.
\<close>

fun set_prop :: "json \<Rightarrow> string \<Rightarrow> json \<Rightarrow> js_exn + json" where
  "set_prop (JObj fs) k v = Inr (JObj (AList.update k v fs))"
| "set_prop (JArr xs ps) k v = Inr (JArr xs (AList.update k v ps))"
| "set_prop JNull k v = Inl TypeError"
| "set_prop (JBool b) k v = Inl TypeError"
| "set_prop (JNum q) k v = Inl TypeError"
| "set_prop (JStr s) k v = Inl TypeError"

text \<open>A named property of a value (the index properties of an array are its elements).\<close>

fun get_prop :: "json \<Rightarrow> string \<Rightarrow> json option" where
  "get_prop (JObj fs) k = map_of fs k"
| "get_prop (JArr xs ps) k = map_of ps k"
| "get_prop JNull k = None"
| "get_prop (JBool b) k = None"
| "get_prop (JNum q) k = None"
| "get_prop (JStr s) k = None"

fun takes_props :: "json \<Rightarrow> bool" where
  "takes_props (JObj fs) = True"
| "takes_props (JArr xs ps) = True"
| "takes_props JNull = False"
| "takes_props (JBool b) = False"
| "takes_props (JNum q) = False"
| "takes_props (JStr s) = False"

fun difficulty_text :: "Difficulty \<Rightarrow> string" where
  "difficulty_text Easy = ''easy''"
| "difficulty_text Medium = ''medium''"
| "difficulty_text Hard = ''hard''"

text \<open>
  What \<^verbatim>\<open>ai.models.generateContent\<close> gives back: a rejection, or a response with its
  \<^verbatim>\<open>text\<close> (\<open>None\<close> for \<^verbatim>\<open>undefined\<close>).
\<close>

datatype api_response = Thrown | Response "string option"

text \<open>
  The \<^verbatim>\<open>try\<close> block of \<^verbatim>\<open>generateRiddleFromTopic\<close>. \<^verbatim>\<open>JSON.parse\<close> is the language's own
  function and is a parameter: \<open>parse t = None\<close> is its SyntaxError.
\<close>

definition riddle_try ::
  "(string \<Rightarrow> json option) \<Rightarrow> api_response \<Rightarrow> string \<Rightarrow> Difficulty \<Rightarrow> js_exn + json" where
  "riddle_try parse response tp d =
     (case response of
        Thrown \<Rightarrow> Inl Rejection
      | Response text \<Rightarrow>
          (case text of
             None \<Rightarrow> Inl (Error ''No data returned from Gemini.'')
           | Some t \<Rightarrow>
               if t = [] then Inl (Error ''No data returned from Gemini.'')
               else (case parse t of
                       None \<Rightarrow> Inl SyntaxError
                     | Some data \<Rightarrow>
                         (case set_prop data ''news_topic'' (JStr tp) of
                            Inl e \<Rightarrow> Inl e
                          | Inr data1 \<Rightarrow>
                              set_prop data1 ''difficulty'' (JStr (difficulty_text d))))))"

text \<open>The \<^verbatim>\<open>catch\<close> block replaces every exception by one error.\<close>

definition generateRiddleFromTopic ::
  "(string \<Rightarrow> json option) \<Rightarrow> api_response \<Rightarrow> string \<Rightarrow> Difficulty \<Rightarrow> js_exn + json" where
  "generateRiddleFromTopic parse response tp d =
     (case riddle_try parse response tp d of
        Inl e \<Rightarrow> Inl (Error ''Failed to generate riddle logic.'')
      | Inr data \<Rightarrow> Inr data)"

text \<open>Conformance to \<^verbatim>\<open>riddleResponseSchema\<close>: an object with the six required
  properties, each of its declared type.\<close>

fun is_JStr :: "json \<Rightarrow> bool" where
  "is_JStr (JStr s) = True"
| "is_JStr JNull = False"
| "is_JStr (JBool b) = False"
| "is_JStr (JNum q) = False"
| "is_JStr (JArr xs ps) = False"
| "is_JStr (JObj fs) = False"

definition is_string :: "json option \<Rightarrow> bool" where
  "is_string v = (case v of None \<Rightarrow> False | Some x \<Rightarrow> is_JStr x)"

definition is_string_array :: "json option \<Rightarrow> bool" where
  "is_string_array v = (case v of Some (JArr xs ps) \<Rightarrow> list_all is_JStr xs | _ \<Rightarrow> False)"

definition is_integer :: "json option \<Rightarrow> bool" where
  "is_integer v = (case v of Some (JNum q) \<Rightarrow> q = of_int \<lfloor>q\<rfloor> | _ \<Rightarrow> False)"

definition riddleResponseSchema :: "json \<Rightarrow> bool" where
  "riddleResponseSchema v =
     (case v of
        JObj fs \<Rightarrow>
          is_string (map_of fs ''image_prompt'') \<and> is_string (map_of fs ''riddle_question'') \<and>
          is_string_array (map_of fs ''choices'') \<and> is_integer (map_of fs ''answerIndex'') \<and>
          is_string_array (map_of fs ''hints'') \<and> is_string (map_of fs ''fun_fact'')
      | _ \<Rightarrow> False)"

definition choices_of :: "json \<Rightarrow> json list" where
  "choices_of v = (case get_prop v ''choices'' of Some (JArr xs ps) \<Rightarrow> xs | _ \<Rightarrow> [])"

definition answerIndex_of :: "json \<Rightarrow> rat" where
  "answerIndex_of v = (case get_prop v ''answerIndex'' of Some (JNum q) \<Rightarrow> q | _ \<Rightarrow> - 1)"

text \<open>
  The specification's valid record, in its words: conforming to the schema, with exactly
  4 choices and \<open>0 \<le> answerIndex < len(choices)\<close>.
\<close>

definition spec_valid_RiddleRecord :: "json \<Rightarrow> bool" where
  "spec_valid_RiddleRecord v \<longleftrightarrow>
     riddleResponseSchema v \<and> length (choices_of v) = 4 \<and>
     0 \<le> answerIndex_of v \<and> answerIndex_of v < of_nat (length (choices_of v))"

section \<open>Sample data\<close>

definition riddle_A :: RiddleData where
  "riddle_A = \<lparr> image_prompt = ''a fox on the moon'', riddle_question = ''Q1'',
      choices = [''a'', ''b'', ''c'', ''d''], answerIndex = 2, hints = [''h1'', ''h2''],
      fun_fact = ''f1'', news_topic = Some ''cats'', difficulty = Some ''medium'' \<rparr>"

definition riddle_B :: RiddleData where
  "riddle_B = \<lparr> image_prompt = ''a kettle'', riddle_question = ''Q2'',
      choices = [''x'', ''y''], answerIndex = 5, hints = [],
      fun_fact = ''f2'', news_topic = None, difficulty = None \<rparr>"

definition env_at :: "string \<Rightarrow> int \<Rightarrow> (HistoryItem list \<Rightarrow> bool) \<Rightarrow> save_env" where
  "env_at i t ok = \<lparr> fresh_id = i, now = t, quota_ok = ok \<rparr>"

definition store_A :: Storage where
  "store_A = record_calls [(env_at ''i1'' 1 (\<lambda>h. True), riddle_A, ''u1'')] empty_storage"

definition sample_services :: services where
  "sample_services =
     \<lparr> startBGM = Resolved (),
       fetchTrendingNews = (\<lambda>c. Resolved ''Fox lands on the moon''),
       generateRiddle = (\<lambda>t d. Resolved riddle_A),
       generateRiddleImage = (\<lambda>p. Resolved ''data:image/png;base64,AAAA'') \<rparr>"

definition failing_image_services :: services where
  "failing_image_services =
     sample_services\<lparr>generateRiddleImage :=
       (\<lambda>p. Rejected (Some ''Failed to generate the riddle image.''))\<rparr>"

definition playing_A :: App where
  "playing_A = handleStartGame sample_services True (Some ''Technology'') (startApp empty_storage)"

definition select_ok :: select_env where
  "select_ok = \<lparr> streak_writable = True, save = env_at ''i1'' 1 (\<lambda>h. True) \<rparr>"

text \<open>A payload that conforms to the declared schema, with 2 choices and answer index 5, and
  \<^verbatim>\<open>JSON.parse\<close> on it.\<close>

definition sample_payload :: string where
  \<open>sample_payload = ''{"image_prompt":"p","riddle_question":"q","choices":["x","y"],"answerIndex":5,"hints":[],"fun_fact":"f"}''\<close>

definition sample_value :: json where
  "sample_value =
     JObj [(''image_prompt'', JStr ''p''), (''riddle_question'', JStr ''q''),
           (''choices'', JArr [JStr ''x'', JStr ''y''] []), (''answerIndex'', JNum 5),
           (''hints'', JArr [] []), (''fun_fact'', JStr ''f'')]"

definition sample_parse :: "string \<Rightarrow> json option" where
  "sample_parse t = (if t = sample_payload then Some sample_value else None)"

section \<open>Properties of the history store\<close>

lemma saveLoop_nonempty:
  "h \<noteq> [] \<Longrightarrow>
   \<exists>k. 1 \<le> k \<and> k \<le> length h \<and> fst (saveLoop ok h st) = take k h \<and>
       (\<forall>j. k < j \<and> j \<le> length h \<longrightarrow> \<not> ok (take j h)) \<and>
       (if ok (take k h)
        then snd (saveLoop ok h st) = st\<lparr>newsquest_solved_history := Some (Serialized (take k h))\<rparr>
        else k = 1 \<and> snd (saveLoop ok h st) = st)"
proof (induction ok h st rule: saveLoop.induct)
  case (1 ok h st)
  show ?case
  proof (cases "ok h")
    case True
    then have "saveLoop ok h st = (h, st\<lparr>newsquest_solved_history := Some (Serialized h)\<rparr>)"
      using "1.prems" by (simp add: saveLoop.simps [of ok h st] setItem_history_def)
    then show ?thesis
      using True "1.prems" by (intro exI [of _ "length h"]) (auto simp: Suc_le_eq)
  next
    case False
    show ?thesis
    proof (cases "length h > 1")
      case long: True
      then have ne: "butlast h \<noteq> []"
        by (cases h rule: rev_cases) auto
      have step: "saveLoop ok h st = saveLoop ok (butlast h) st"
        using False long "1.prems" by (simp add: saveLoop.simps [of ok h st] setItem_history_def)
      have "setItem_history ok h st = Inl QuotaExceededError"
        using False by (simp add: setItem_history_def)
      from "1.IH" [OF _ this long ne] long "1.prems"
      obtain k where k: "1 \<le> k" "k \<le> length (butlast h)"
        "fst (saveLoop ok (butlast h) st) = take k (butlast h)"
        "\<forall>j. k < j \<and> j \<le> length (butlast h) \<longrightarrow> \<not> ok (take j (butlast h))"
        "if ok (take k (butlast h))
         then snd (saveLoop ok (butlast h) st) = st\<lparr>newsquest_solved_history := Some (Serialized (take k (butlast h)))\<rparr>
         else k = 1 \<and> snd (saveLoop ok (butlast h) st) = st"
        by auto
      have tk: "\<And>j. j \<le> length h - 1 \<Longrightarrow> take j (butlast h) = take j h"
        by (simp add: butlast_conv_take)
      have "\<forall>j. k < j \<and> j \<le> length h \<longrightarrow> \<not> ok (take j h)"
      proof (intro allI impI)
        fix j assume j: "k < j \<and> j \<le> length h"
        show "\<not> ok (take j h)"
        proof (cases "j = length h")
          case True then show ?thesis using False by simp
        next
          case False
          then have "j \<le> length h - 1" using j by arith
          then show ?thesis using k(4) j tk by (metis length_butlast)
        qed
      qed
      then show ?thesis
        using k tk [of k] step by (intro exI [of _ k]) (auto split: if_splits)
    next
      case short: False
      then have len: "length h = 1" using "1.prems" by (cases h) auto
      then have "saveLoop ok h st = (h, st)"
        using False by (simp add: saveLoop.simps [of ok h st] setItem_history_def)
      then show ?thesis
        using False len by (intro exI [of _ 1]) auto
    qed
  qed
qed

lemma getHistory_written [simp]:
  "getHistory (st\<lparr>newsquest_solved_history := Some (Serialized x)\<rparr>) = x"
  by (simp add: getHistory_def)

lemma getHistory_empty [simp]: "getHistory empty_storage = []"
  by (simp add: getHistory_def empty_storage_def)

lemma question_newItem [simp]: "question (newItem env r u) = riddle_question r"
  by (simp add: newItem_def)

lemma timestamp_newItem [simp]: "timestamp (newItem env r u) = now env"
  by (simp add: newItem_def)

lemma list_ex_question:
  "list_ex (\<lambda>h. question h = q) hs \<longleftrightarrow> q \<in> set (map question hs)"
  by (auto simp: list_ex_iff)

lemma saveToHistory_duplicate:
  "riddle_question r \<in> set (map question (getHistory st)) \<Longrightarrow>
   saveToHistory env r u st = (getHistory st, st)"
  by (simp add: saveToHistory_def Let_def list_ex_question)

lemma saveToHistory_fresh_loop:
  "riddle_question r \<notin> set (map question (getHistory st)) \<Longrightarrow>
   saveToHistory env r u st = saveLoop (quota_ok env) (candidate env r u st) st"
  by (simp add: saveToHistory_def Let_def list_ex_question candidate_def)

lemma candidate_nonempty [simp]: "candidate env r u st \<noteq> []"
  by (simp add: candidate_def MAX_ITEMS_def)

lemma saveToHistory_fresh:
  assumes "riddle_question r \<notin> set (map question (getHistory st))"
  shows "\<exists>k. 1 \<le> k \<and> k \<le> length (candidate env r u st) \<and>
       fst (saveToHistory env r u st) = take k (candidate env r u st) \<and>
       (\<forall>j. k < j \<and> j \<le> length (candidate env r u st) \<longrightarrow>
            \<not> quota_ok env (take j (candidate env r u st))) \<and>
       (if quota_ok env (take k (candidate env r u st))
        then snd (saveToHistory env r u st) =
               st\<lparr>newsquest_solved_history := Some (Serialized (take k (candidate env r u st)))\<rparr>
        else k = 1 \<and> snd (saveToHistory env r u st) = st)"
  unfolding saveToHistory_fresh_loop [OF assms]
  by (rule saveLoop_nonempty [OF candidate_nonempty])

lemma store_inv_take: "store_inv h \<Longrightarrow> store_inv (take k h)"
  by (auto simp: store_inv_def take_map [symmetric])

lemma store_inv_candidate:
  "store_inv (getHistory st) \<Longrightarrow> riddle_question r \<notin> set (map question (getHistory st)) \<Longrightarrow>
   store_inv (candidate env r u st)"
  unfolding candidate_def store_inv_def
  by (auto simp: take_map [symmetric] dest: in_set_takeD)

lemma saveToHistory_inv:
  assumes "store_inv (getHistory st)"
  shows "store_inv (fst (saveToHistory env r u st)) \<and>
         store_inv (getHistory (snd (saveToHistory env r u st)))"
proof (cases "riddle_question r \<in> set (map question (getHistory st))")
  case True
  then show ?thesis using assms by (simp add: saveToHistory_duplicate)
next
  case False
  from saveToHistory_fresh [OF False, of env u]
  obtain k where k: "fst (saveToHistory env r u st) = take k (candidate env r u st)"
    "if quota_ok env (take k (candidate env r u st))
        then snd (saveToHistory env r u st) =
               st\<lparr>newsquest_solved_history := Some (Serialized (take k (candidate env r u st)))\<rparr>
        else k = 1 \<and> snd (saveToHistory env r u st) = st"
    by blast
  have c: "store_inv (take k (candidate env r u st))"
    using store_inv_candidate [OF assms False] by (rule store_inv_take)
  show ?thesis
    using k c assms by (auto split: if_splits)
qed

lemma record_calls_inv:
  "store_inv (getHistory st) \<Longrightarrow> store_inv (getHistory (record_calls cs st))"
proof (induction cs arbitrary: st)
  case Nil
  then show ?case by simp
next
  case (Cons c cs)
  obtain env r u where c: "c = (env, r, u)" by (cases c)
  show ?case
    using Cons.IH [of "snd (saveToHistory env r u st)"] saveToHistory_inv [OF Cons.prems, of env r u]
    by (simp add: c)
qed

lemma newest_first_take: "newest_first h \<Longrightarrow> newest_first (take k h)"
  by (simp add: newest_first_def sorted_wrt_take)

lemma saveToHistory_newest_first:
  assumes nf: "newest_first (getHistory st)"
    and le: "\<forall>x\<in>set (getHistory st). timestamp x \<le> now env"
  shows "newest_first (fst (saveToHistory env r u st)) \<and>
         newest_first (getHistory (snd (saveToHistory env r u st))) \<and>
         (\<forall>x\<in>set (getHistory (snd (saveToHistory env r u st))). timestamp x \<le> now env)"
proof (cases "riddle_question r \<in> set (map question (getHistory st))")
  case True
  then show ?thesis using assms by (simp add: saveToHistory_duplicate)
next
  case False
  from saveToHistory_fresh [OF False, of env u]
  obtain k where k: "fst (saveToHistory env r u st) = take k (candidate env r u st)"
    "if quota_ok env (take k (candidate env r u st))
        then snd (saveToHistory env r u st) =
               st\<lparr>newsquest_solved_history := Some (Serialized (take k (candidate env r u st)))\<rparr>
        else k = 1 \<and> snd (saveToHistory env r u st) = st"
    by blast
  have "newest_first (newItem env r u # getHistory st)"
    using nf le by (simp add: newest_first_def)
  then have c: "newest_first (take k (candidate env r u st))"
    unfolding candidate_def by (intro newest_first_take)
  have "\<forall>x\<in>set (newItem env r u # getHistory st). timestamp x \<le> now env"
    using le by simp
  then have b: "\<forall>x\<in>set (take k (candidate env r u st)). timestamp x \<le> now env"
    unfolding candidate_def by (meson in_set_takeD)
  show ?thesis
    using k c b assms by (auto split: if_splits)
qed

lemma record_calls_newest_first:
  "newest_first (getHistory st) \<Longrightarrow> sorted (clocks cs) \<Longrightarrow>
   \<forall>x\<in>set (getHistory st). \<forall>t\<in>set (clocks cs). timestamp x \<le> t \<Longrightarrow>
   \<forall>x\<in>set (getHistory st). timestamp x \<le> bound \<Longrightarrow>
   \<forall>t\<in>set (clocks cs). t \<le> bound \<Longrightarrow>
   newest_first (getHistory (record_calls cs st)) \<and>
   (\<forall>x\<in>set (getHistory (record_calls cs st)). timestamp x \<le> bound)"
proof (induction cs arbitrary: st)
  case Nil
  then show ?case by simp
next
  case (Cons c cs)
  obtain env r u where c: "c = (env, r, u)" by (cases c)
  let ?st = "snd (saveToHistory env r u st)"
  have le: "\<forall>x\<in>set (getHistory st). timestamp x \<le> now env"
    using Cons.prems(3) by (simp add: c clocks_def)
  note step = saveToHistory_newest_first [OF Cons.prems(1) le, of r u]
  have later: "\<forall>t\<in>set (clocks cs). now env \<le> t"
    using Cons.prems(2) by (simp add: c clocks_def)
  have a: "\<forall>x\<in>set (getHistory ?st). \<forall>t\<in>set (clocks cs). timestamp x \<le> t"
    using step later by fastforce
  have b: "\<forall>x\<in>set (getHistory ?st). timestamp x \<le> bound"
    using step Cons.prems(5) by (fastforce simp: c clocks_def)
  have "sorted (clocks cs)" "\<forall>t\<in>set (clocks cs). t \<le> bound"
    using Cons.prems(2,5) by (simp_all add: clocks_def)
  from Cons.IH [OF _ this(1) a b this(2)] step show ?case
    by (simp add: c)
qed

lemma one_entry_per_question:
  "distinct (map question hs) \<Longrightarrow> q \<in> set (map question hs) \<Longrightarrow>
   length (filter (\<lambda>h. question h = q) hs) = 1"
proof (induction hs)
  case Nil
  then show ?case by simp
next
  case (Cons h hs)
  show ?case
  proof (cases "question h = q")
    case True
    then have "q \<notin> set (map question hs)" using Cons.prems(1) by auto
    then have "filter (\<lambda>h. question h = q) hs = []"
      by (auto simp: filter_empty_conv)
    then show ?thesis using True by simp
  next
    case False
    then show ?thesis using Cons by auto
  qed
qed

lemmas store_eval = saveToHistory_def Let_def getHistory_def empty_storage_def newItem_def MAX_ITEMS_def
  saveLoop.simps setItem_history_def candidate_def js_index_def or_default_def riddle_A_def riddle_B_def
  env_at_def store_A_def clocks_def newest_first_def

text \<open>
  Claim C2. Start from a storage whose history reads as empty and make any sequence of
  \<^verbatim>\<open>saveToHistory\<close> calls. The list that \<^verbatim>\<open>getHistory\<close> then returns and the list that a
  further call returns have at most 12 entries and no question twice, and the returned
  list has exactly one entry for the question of the call. A call whose question is
  already stored returns the stored list and leaves the storage as it is. Any other call
  returns the new entry followed by a prefix of the stored list (the oldest entries are
  the ones dropped), and when the first write is accepted that is the first 12 entries,
  which are then also what \<^verbatim>\<open>getHistory\<close> returns. Once the returned list is the stored
  list, a call with the same question returns it unchanged. When the clock readings of
  the calls never decrease, both lists are ordered newest first.
\<close>

theorem record_history_invariant:
  assumes e: "getHistory st0 = []"
  shows
  "length (getHistory (record_calls cs st0)) \<le> 12 \<and>
   distinct (map question (getHistory (record_calls cs st0))) \<and>
   length (fst (saveToHistory env r u (record_calls cs st0))) \<le> 12 \<and>
   distinct (map question (fst (saveToHistory env r u (record_calls cs st0)))) \<and>
   length (filter (\<lambda>h. question h = riddle_question r)
             (fst (saveToHistory env r u (record_calls cs st0)))) = 1 \<and>
   (riddle_question r \<in> set (map question (getHistory (record_calls cs st0))) \<longrightarrow>
      saveToHistory env r u (record_calls cs st0) =
        (getHistory (record_calls cs st0), record_calls cs st0)) \<and>
   (riddle_question r \<notin> set (map question (getHistory (record_calls cs st0))) \<longrightarrow>
      (\<exists>k\<ge>1. fst (saveToHistory env r u (record_calls cs st0)) =
         take k (newItem env r u # getHistory (record_calls cs st0))) \<and>
      (quota_ok env (take 12 (newItem env r u # getHistory (record_calls cs st0))) \<longrightarrow>
         fst (saveToHistory env r u (record_calls cs st0)) =
           take 12 (newItem env r u # getHistory (record_calls cs st0)) \<and>
         getHistory (snd (saveToHistory env r u (record_calls cs st0))) =
           fst (saveToHistory env r u (record_calls cs st0)))) \<and>
   (riddle_question r2 = riddle_question r \<and>
    getHistory (snd (saveToHistory env r u (record_calls cs st0))) =
      fst (saveToHistory env r u (record_calls cs st0)) \<longrightarrow>
      saveToHistory env2 r2 u2 (snd (saveToHistory env r u (record_calls cs st0))) =
        (fst (saveToHistory env r u (record_calls cs st0)),
         snd (saveToHistory env r u (record_calls cs st0)))) \<and>
   (sorted (clocks cs @ [now env]) \<longrightarrow>
      newest_first (getHistory (record_calls cs st0)) \<and>
      newest_first (fst (saveToHistory env r u (record_calls cs st0))))"
proof -
  let ?st = "record_calls cs st0"
  let ?res = "saveToHistory env r u ?st"
  have inv: "store_inv (getHistory ?st)"
    by (rule record_calls_inv) (simp add: store_inv_def e)
  note inv' = saveToHistory_inv [OF inv, of env r u]
  have fresh: "(\<exists>k\<ge>1. fst ?res = take k (newItem env r u # getHistory ?st)) \<and>
      (quota_ok env (take 12 (newItem env r u # getHistory ?st)) \<longrightarrow>
         fst ?res = take 12 (newItem env r u # getHistory ?st) \<and>
         getHistory (snd ?res) = fst ?res)"
    if nd: "riddle_question r \<notin> set (map question (getHistory ?st))"
  proof -
    let ?c = "candidate env r u ?st"
    from saveToHistory_fresh [OF nd, of env u]
    obtain k where k: "1 \<le> k" "k \<le> length ?c"
      "fst ?res = take k ?c"
      "\<forall>j. k < j \<and> j \<le> length ?c \<longrightarrow> \<not> quota_ok env (take j ?c)"
      "if quota_ok env (take k ?c)
        then snd ?res = ?st\<lparr>newsquest_solved_history := Some (Serialized (take k ?c))\<rparr>
        else k = 1 \<and> snd ?res = ?st"
      by blast
    have c12: "?c = take 12 (newItem env r u # getHistory ?st)"
      by (simp add: candidate_def MAX_ITEMS_def)
    have "take k ?c = take (min k 12) (newItem env r u # getHistory ?st)"
      by (simp only: c12 take_take)
    moreover have "1 \<le> min k 12" using k(1) by simp
    ultimately have first: "\<exists>k\<ge>1. fst ?res = take k (newItem env r u # getHistory ?st)"
      using k(3) by metis
    have second: "fst ?res = ?c \<and> getHistory (snd ?res) = fst ?res"
      if ok: "quota_ok env ?c"
    proof -
      have "\<not> k < length ?c"
        using k(4) ok by auto
      then have "take k ?c = ?c" using k(2) by simp
      then show ?thesis using k(3,5) ok by simp
    qed
    show ?thesis using first second by (simp add: c12)
  qed
  have present: "riddle_question r \<in> set (map question (fst ?res))"
  proof (cases "riddle_question r \<in> set (map question (getHistory ?st))")
    case True
    then show ?thesis by (simp add: saveToHistory_duplicate)
  next
    case False
    from fresh [OF False] obtain k where "1 \<le> k"
      "fst ?res = take k (newItem env r u # getHistory ?st)" by blast
    then show ?thesis by (cases k) auto
  qed
  have once: "length (filter (\<lambda>h. question h = riddle_question r) (fst ?res)) = 1"
    using inv' present by (intro one_entry_per_question) (simp_all add: store_inv_def)
  have again: "saveToHistory env2 r2 u2 (snd ?res) = (fst ?res, snd ?res)"
    if "riddle_question r2 = riddle_question r \<and> getHistory (snd ?res) = fst ?res"
    using that present saveToHistory_duplicate [of r2 "snd ?res" env2 u2] by simp
  have ts: "newest_first (getHistory ?st) \<and> newest_first (fst ?res)"
    if s: "sorted (clocks cs @ [now env])"
  proof -
    from s have s1: "sorted (clocks cs)" and s2: "\<forall>t\<in>set (clocks cs). t \<le> now env"
      by (auto simp: sorted_append)
    have r: "newest_first (getHistory ?st) \<and> (\<forall>x\<in>set (getHistory ?st). timestamp x \<le> now env)"
      by (rule record_calls_newest_first [OF _ s1 _ _ s2]) (simp_all add: newest_first_def e)
    then show ?thesis
      using saveToHistory_newest_first [of ?st env r u] by simp
  qed
  show ?thesis
  proof (intro conjI impI)
    show "length (getHistory ?st) \<le> 12" "distinct (map question (getHistory ?st))"
      using inv by (simp_all add: store_inv_def MAX_ITEMS_def)
    show "length (fst ?res) \<le> 12" "distinct (map question (fst ?res))"
      using inv' by (simp_all add: store_inv_def MAX_ITEMS_def)
    show "length (filter (\<lambda>h. question h = riddle_question r) (fst ?res)) = 1"
      by (rule once)
  next
    assume "riddle_question r \<in> set (map question (getHistory ?st))"
    then show "?res = (getHistory ?st, ?st)" by (rule saveToHistory_duplicate)
  next
    assume nd: "riddle_question r \<notin> set (map question (getHistory ?st))"
    show "\<exists>k\<ge>1. fst ?res = take k (newItem env r u # getHistory ?st)"
      using fresh [OF nd] by blast
    assume q: "quota_ok env (take 12 (newItem env r u # getHistory ?st))"
    show "fst ?res = take 12 (newItem env r u # getHistory ?st)"
      "getHistory (snd ?res) = fst ?res"
      using fresh [OF nd] q by blast+
  next
    assume "riddle_question r2 = riddle_question r \<and> getHistory (snd ?res) = fst ?res"
    then show "saveToHistory env2 r2 u2 (snd ?res) = (fst ?res, snd ?res)" by (rule again)
  next
    assume s: "sorted (clocks cs @ [now env])"
    show "newest_first (getHistory ?st)" "newest_first (fst ?res)"
      using ts [OF s] by blast+
  qed
qed

text \<open>
  The theorem at two calls after one stored riddle: a new question with every write
  accepted, and the stored question again.
\<close>

theorem record_history_invariant_witness:
  "getHistory empty_storage = [] \<and>
   riddle_question riddle_B \<notin> set (map question (getHistory store_A)) \<and>
   quota_ok (env_at ''i2'' 2 (\<lambda>h. True)) (take 12 (newItem (env_at ''i2'' 2 (\<lambda>h. True)) riddle_B ''u2'' # getHistory store_A)) \<and>
   sorted (clocks [(env_at ''i1'' 1 (\<lambda>h. True), riddle_A, ''u1'')] @ [now (env_at ''i2'' 2 (\<lambda>h. True))]) \<and>
   fst (saveToHistory (env_at ''i2'' 2 (\<lambda>h. True)) riddle_B ''u2'' store_A) =
     [newItem (env_at ''i2'' 2 (\<lambda>h. True)) riddle_B ''u2'', newItem (env_at ''i1'' 1 (\<lambda>h. True)) riddle_A ''u1''] \<and>
   getHistory (snd (saveToHistory (env_at ''i2'' 2 (\<lambda>h. True)) riddle_B ''u2'' store_A)) =
     fst (saveToHistory (env_at ''i2'' 2 (\<lambda>h. True)) riddle_B ''u2'' store_A) \<and>
   fst (saveToHistory (env_at ''i4'' 4 (\<lambda>h. True)) riddle_B ''u4''
          (snd (saveToHistory (env_at ''i2'' 2 (\<lambda>h. True)) riddle_B ''u2'' store_A))) =
     [newItem (env_at ''i2'' 2 (\<lambda>h. True)) riddle_B ''u2'', newItem (env_at ''i1'' 1 (\<lambda>h. True)) riddle_A ''u1''] \<and>
   newest_first (fst (saveToHistory (env_at ''i2'' 2 (\<lambda>h. True)) riddle_B ''u2'' store_A)) \<and>
   riddle_question riddle_A \<in> set (map question (getHistory store_A)) \<and>
   fst (saveToHistory (env_at ''i3'' 3 (\<lambda>h. True)) riddle_A ''u3'' store_A) =
     [newItem (env_at ''i1'' 1 (\<lambda>h. True)) riddle_A ''u1'']"
  using record_history_invariant [of empty_storage "[(env_at ''i1'' 1 (\<lambda>h. True), riddle_A, ''u1'')]"
      "env_at ''i2'' 2 (\<lambda>h. True)" riddle_B "''u2''" riddle_B "env_at ''i4'' 4 (\<lambda>h. True)" "''u4''"]
    record_history_invariant [of empty_storage "[(env_at ''i1'' 1 (\<lambda>h. True), riddle_A, ''u1'')]"
      "env_at ''i3'' 3 (\<lambda>h. True)" riddle_A "''u3''" riddle_A "env_at ''i4'' 4 (\<lambda>h. True)" "''u4''"]
  by (simp add: store_eval)

text \<open>
  Claim C3, as the code has it. A call that attempts a write (its question is not stored
  yet) returns the longest prefix \<open>take k\<close> of the candidate list whose write is accepted:
  every longer prefix was refused, one entry was dropped from the end after each refusal,
  and when even one entry is refused the call returns that one entry and leaves the
  storage unchanged. The function is total, so no exception reaches the caller. When the
  storage accepts exactly the lists of at most \<open>n\<close> entries, for an \<open>n\<close> of at least 1,
  the returned list has at most \<open>n\<close> entries. When the storage accepts no list with
  an entry, the returned list is the new entry alone.
\<close>

theorem saveToHistory_eviction:
  "riddle_question r \<notin> set (map question (getHistory st)) \<Longrightarrow>
   (\<exists>k\<ge>1. k \<le> length (candidate env r u st) \<and>
       fst (saveToHistory env r u st) = take k (candidate env r u st) \<and>
       (\<forall>j. k < j \<and> j \<le> length (candidate env r u st) \<longrightarrow>
            \<not> quota_ok env (take j (candidate env r u st))) \<and>
       (quota_ok env (take k (candidate env r u st)) \<longrightarrow>
            getHistory (snd (saveToHistory env r u st)) = take k (candidate env r u st)) \<and>
       (\<not> quota_ok env (take k (candidate env r u st)) \<longrightarrow>
            k = 1 \<and> snd (saveToHistory env r u st) = st)) \<and>
   (\<forall>n\<ge>1. (\<forall>h. quota_ok env h \<longleftrightarrow> length h \<le> n) \<longrightarrow>
       length (fst (saveToHistory env r u st)) \<le> n) \<and>
   ((\<forall>h. h \<noteq> [] \<longrightarrow> \<not> quota_ok env h) \<longrightarrow>
       fst (saveToHistory env r u st) = [newItem env r u] \<and>
       snd (saveToHistory env r u st) = st)"
proof -
  assume nd: "riddle_question r \<notin> set (map question (getHistory st))"
  let ?c = "candidate env r u st"
  from saveToHistory_fresh [OF nd, of env u]
  obtain k where k: "1 \<le> k" "k \<le> length ?c"
    "fst (saveToHistory env r u st) = take k ?c"
    "\<forall>j. k < j \<and> j \<le> length ?c \<longrightarrow> \<not> quota_ok env (take j ?c)"
    "if quota_ok env (take k ?c)
      then snd (saveToHistory env r u st) =
             st\<lparr>newsquest_solved_history := Some (Serialized (take k ?c))\<rparr>
      else k = 1 \<and> snd (saveToHistory env r u st) = st"
    by blast
  have general: "\<exists>k\<ge>1. k \<le> length ?c \<and>
       fst (saveToHistory env r u st) = take k ?c \<and>
       (\<forall>j. k < j \<and> j \<le> length ?c \<longrightarrow> \<not> quota_ok env (take j ?c)) \<and>
       (quota_ok env (take k ?c) \<longrightarrow> getHistory (snd (saveToHistory env r u st)) = take k ?c) \<and>
       (\<not> quota_ok env (take k ?c) \<longrightarrow> k = 1 \<and> snd (saveToHistory env r u st) = st)"
    using k by (intro exI [of _ k]) (auto split: if_splits)
  have bound: "length (fst (saveToHistory env r u st)) \<le> n"
    if n: "1 \<le> n" and q: "\<forall>h. quota_ok env h \<longleftrightarrow> length h \<le> n" for n
  proof (cases "k \<le> n")
    case True
    then show ?thesis using k(3) by simp
  next
    case False
    then have "\<not> quota_ok env (take k ?c)" using q k(2) by simp
    then have "k = 1" using k(5) by simp
    then show ?thesis using False n by simp
  qed
  have never: "fst (saveToHistory env r u st) = [newItem env r u] \<and>
       snd (saveToHistory env r u st) = st"
    if q: "\<forall>h. h \<noteq> [] \<longrightarrow> \<not> quota_ok env h"
  proof -
    have ne: "take k ?c \<noteq> []" using k(1,2) by (cases ?c) auto
    then have "\<not> quota_ok env (take k ?c)" using q by simp
    then have one: "k = 1" and same: "snd (saveToHistory env r u st) = st"
      using k(5) by simp_all
    have "take 1 ?c = [newItem env r u]"
      by (simp add: candidate_def MAX_ITEMS_def)
    then show ?thesis using k(3) one same by simp
  qed
  show ?thesis using general bound never by blast
qed

text \<open>The theorem at a storage that accepts one entry only and at one that accepts
  nothing, each with one riddle stored.\<close>

theorem saveToHistory_eviction_witness:
  "riddle_question riddle_B \<notin> set (map question (getHistory store_A)) \<and>
   (1::nat) \<le> 1 \<and>
   (\<forall>h. quota_ok (env_at ''i2'' 2 (\<lambda>h. length h \<le> 1)) h \<longleftrightarrow> length h \<le> 1) \<and>
   length (candidate (env_at ''i2'' 2 (\<lambda>h. length h \<le> 1)) riddle_B ''u2'' store_A) = 2 \<and>
   length (fst (saveToHistory (env_at ''i2'' 2 (\<lambda>h. length h \<le> 1)) riddle_B ''u2'' store_A)) \<le> 1 \<and>
   fst (saveToHistory (env_at ''i3'' 3 (\<lambda>h. False)) riddle_B ''u3'' store_A) =
     [newItem (env_at ''i3'' 3 (\<lambda>h. False)) riddle_B ''u3''] \<and>
   snd (saveToHistory (env_at ''i3'' 3 (\<lambda>h. False)) riddle_B ''u3'' store_A) = store_A"
  using saveToHistory_eviction [of riddle_B store_A "env_at ''i2'' 2 (\<lambda>h. length h \<le> 1)" "''u2''"]
    saveToHistory_eviction [of riddle_B store_A "env_at ''i3'' 3 (\<lambda>h. False)" "''u3''"]
  by (simp add: store_eval)

text \<open>
  Claim C3 as stated fails at \<open>k = 0\<close>: when the storage refuses every list with an entry,
  the loop stops at one entry and the call returns it, which is more than 0 entries.
\<close>

theorem saveToHistory_eviction_counterexample:
  "(\<forall>h. quota_ok (env_at ''i2'' 2 (\<lambda>h. length h \<le> 0)) h \<longleftrightarrow> length h \<le> 0) \<and>
   riddle_question riddle_B \<notin> set (map question (getHistory store_A)) \<and>
   fst (saveToHistory (env_at ''i2'' 2 (\<lambda>h. length h \<le> 0)) riddle_B ''u2'' store_A) =
     [newItem (env_at ''i2'' 2 (\<lambda>h. length h \<le> 0)) riddle_B ''u2''] \<and>
   \<not> length (fst (saveToHistory (env_at ''i2'' 2 (\<lambda>h. length h \<le> 0)) riddle_B ''u2'' store_A)) \<le> 0"
  by (simp add: store_eval)

text \<open>
  Claim C10. The answer of the new entry is the choice at \<^verbatim>\<open>answerIndex\<close> when
  \<open>0 \<le> answerIndex < length choices\<close>, and undefined (\<open>None\<close>) otherwise; a missing or
  empty \<^verbatim>\<open>news_topic\<close> becomes \<^verbatim>\<open>"Mystery Topic"\<close>, any other topic is kept; and a call
  whose question is not stored yet returns a list headed by that entry, whatever the
  index is.
\<close>

theorem saveToHistory_answer_lookup:
  "(0 \<le> answerIndex r \<and> answerIndex r < int (length (choices r)) \<longrightarrow>
      answer (newItem env r u) = Some (choices r ! nat (answerIndex r))) \<and>
   (\<not> (0 \<le> answerIndex r \<and> answerIndex r < int (length (choices r))) \<longrightarrow>
      answer (newItem env r u) = None) \<and>
   (news_topic r = None \<or> news_topic r = Some [] \<longrightarrow> topic (newItem env r u) = ''Mystery Topic'') \<and>
   (\<forall>t. news_topic r = Some t \<and> t \<noteq> [] \<longrightarrow> topic (newItem env r u) = t) \<and>
   (riddle_question r \<notin> set (map question (getHistory st)) \<longrightarrow>
      (\<exists>rest. fst (saveToHistory env r u st) = newItem env r u # rest))"
proof -
  have stored: "\<exists>rest. fst (saveToHistory env r u st) = newItem env r u # rest"
    if nd: "riddle_question r \<notin> set (map question (getHistory st))"
  proof -
    from saveToHistory_fresh [OF nd, of env u]
    obtain k where k: "1 \<le> k" "fst (saveToHistory env r u st) = take k (candidate env r u st)"
      by blast
    then obtain k' where "k = Suc k'" by (cases k) auto
    then show ?thesis using k(2) by (simp add: candidate_def MAX_ITEMS_def)
  qed
  show ?thesis
    using stored by (simp add: newItem_def js_index_def or_default_def)
qed

text \<open>The theorem at a riddle with a valid index and at one with index 5 of 2 choices.\<close>

theorem saveToHistory_answer_lookup_witness:
  "(0 \<le> answerIndex riddle_A \<and> answerIndex riddle_A < int (length (choices riddle_A))) \<and>
   answer (newItem (env_at ''i1'' 1 (\<lambda>h. True)) riddle_A ''u1'') = Some ''c'' \<and>
   topic (newItem (env_at ''i1'' 1 (\<lambda>h. True)) riddle_A ''u1'') = ''cats'' \<and>
   \<not> (0 \<le> answerIndex riddle_B \<and> answerIndex riddle_B < int (length (choices riddle_B))) \<and>
   news_topic riddle_B = None \<and>
   riddle_question riddle_B \<notin> set (map question (getHistory store_A)) \<and>
   answer (hd (fst (saveToHistory (env_at ''i2'' 2 (\<lambda>h. True)) riddle_B ''u2'' store_A))) = None \<and>
   topic (hd (fst (saveToHistory (env_at ''i2'' 2 (\<lambda>h. True)) riddle_B ''u2'' store_A))) = ''Mystery Topic''"
  using saveToHistory_answer_lookup [of riddle_A "env_at ''i1'' 1 (\<lambda>h. True)" "''u1''" empty_storage]
    saveToHistory_answer_lookup [of riddle_B "env_at ''i2'' 2 (\<lambda>h. True)" "''u2''" store_A]
  by (simp add: store_eval)

section \<open>Properties of the game screen\<close>

lemma revealHint_iter:
  "revealedHints l \<le> length (hints r) \<Longrightarrow>
   revealedHints ((revealHint r ^^ n) l) = min (revealedHints l + n) (length (hints r))"
proof (induction n)
  case 0
  then show ?case by simp
next
  case (Suc n)
  then show ?case by (auto simp: revealHint_def)
qed

text \<open>
  Claim C9. One \<^verbatim>\<open>revealHint\<close> call, and one click on a hint button, leaves the count
  of revealed hints or adds 1 to it, and a count that does not exceed the number of hints
  does not exceed it afterwards. From a fresh screen, \<open>n\<close> calls give
  \<open>min n (length hints)\<close>, so \<open>length hints + 3\<close> calls give exactly \<open>length hints\<close>.
  Once an answer is selected every hint button is disabled and a click changes nothing.
\<close>

theorem revealHint_capped:
  "(revealedHints (revealHint r l) = revealedHints l \<or>
    revealedHints (revealHint r l) = revealedHints l + 1) \<and>
   (revealedHints (clickHint r idx l) = revealedHints l \<or>
    revealedHints (clickHint r idx l) = revealedHints l + 1) \<and>
   (revealedHints l \<le> length (hints r) \<longrightarrow>
      revealedHints (revealHint r l) \<le> length (hints r) \<and>
      revealedHints (clickHint r idx l) \<le> length (hints r)) \<and>
   revealedHints ((revealHint r ^^ n) initialScreen) = min n (length (hints r)) \<and>
   revealedHints ((revealHint r ^^ (length (hints r) + 3)) initialScreen) = length (hints r) \<and>
   (showResult l \<longrightarrow> clickHint r idx l = l)"
proof -
  have z: "revealedHints initialScreen \<le> length (hints r)"
    by (simp add: initialScreen_def)
  have i: "revealedHints ((revealHint r ^^ k) initialScreen) = min k (length (hints r))" for k
    using revealHint_iter [OF z, of k] by (simp add: initialScreen_def)
  show ?thesis
    unfolding i by (auto simp: revealHint_def clickHint_def hintDisabled_def)
qed

text \<open>The theorem at a riddle with two hints: one call, five calls, and a click after
  the answer.\<close>

theorem revealHint_capped_witness:
  "revealedHints initialScreen \<le> length (hints riddle_A) \<and>
   revealedHints (revealHint riddle_A initialScreen) = 1 \<and>
   revealedHints ((revealHint riddle_A ^^ 5) initialScreen) = 2 \<and>
   showResult (initialScreen\<lparr>showResult := True\<rparr>) \<and>
   clickHint riddle_A 0 (initialScreen\<lparr>showResult := True\<rparr>) = initialScreen\<lparr>showResult := True\<rparr>"
  using revealHint_capped [of riddle_A initialScreen 0 5]
    revealHint_capped [of riddle_A "initialScreen\<lparr>showResult := True\<rparr>" 0 5]
  by (simp add: riddle_A_def initialScreen_def revealHint_def)

lemmas app_eval = handleStartGame_def generateFrom_def afterRiddle_def afterImage_def onRejected_def
  render_def gameScreenShown_def startApp_def loadEffect_def initialGameState_def initialScreen_def
  sample_services_def failing_image_services_def playing_A_def select_ok_def Let_def or_default_def
  blank_def

lemma playing_A_value:
  "playing_A =
     \<lparr> gameState = \<lparr> status = Playing, riddle = Some riddle_A,
                     imageUrl = Some ''data:image/png;base64,AAAA'', selectedAnswer = None,
                     hintsRevealed = 0, error = None, score = 0 \<rparr>,
       customTopic = [], app_difficulty = Medium, history = [], streak = Num 0,
       gameScreen = Some initialScreen, localStorage = empty_storage \<rparr>"
  by (simp add: app_eval store_eval)

lemmas select_eval = handleSelect_def handleGameComplete_def updateStreak_def decimal.simps subState_def

text \<open>
  The answer handler where the streak is a number and its write is accepted. Take a
  session whose game screen is mounted with riddle \<open>r\<close> and image \<open>u\<close>
  and has no answer yet, whose streak is the number \<open>n\<close>, and whose streak write the
  storage accepts. Then \<^verbatim>\<open>handleSelect i\<close> returns normally, stores \<open>i\<close> as the selected
  choice and leaves \<^verbatim>\<open>gameState\<close> as it is. If \<open>i\<close> is the answer index, the screen is
  in the solved sub-state, the streak is \<open>n + 1\<close>, and history and storage are what
  \<^verbatim>\<open>saveToHistory\<close> returns for \<open>r\<close> and \<open>u\<close>. Otherwise the screen is in the failed
  sub-state, the streak is 0, the history list is untouched and the storage changes in
  its streak key only, so \<^verbatim>\<open>saveToHistory\<close> was not called. Every later \<^verbatim>\<open>handleSelect\<close>
  leaves the state as it is. \<^verbatim>\<open>RESET\<close> unmounts the screen, and the screen of the next
  round is fresh and takes an answer again.
\<close>

theorem first_selectAnswer:
  assumes scr: "gameScreen a = Some l" and first: "\<not> showResult l"
    and rid: "riddle (gameState a) = Some r"
    and img: "imageUrl (gameState a) = Some u" and u: "u \<noteq> []"
    and num: "streak a = Num n" and w: "streak_writable env"
  shows "\<exists>a' l'. handleSelect env i a = Inr a' \<and> gameScreen a' = Some l' \<and>
     selected l' = Some i \<and> gameState a' = gameState a \<and>
     (i = answerIndex r \<longrightarrow>
        subState l' = Solved \<and> streak a' = Num (n + 1) \<and>
        (history a', localStorage a') =
          saveToHistory (save env) r u
            ((localStorage a)\<lparr>newsquest_streak := Some (numberToString (Num (n + 1)))\<rparr>)) \<and>
     (i \<noteq> answerIndex r \<longrightarrow>
        subState l' = Failed \<and> streak a' = Num 0 \<and> history a' = history a \<and>
        localStorage a' = (localStorage a)\<lparr>newsquest_streak := Some (numberToString (Num 0))\<rparr>) \<and>
     (\<forall>env' j. handleSelect env' j a' = Inr a') \<and>
     gameScreen (render (dispatch RESET a')) = None \<and>
     (\<forall>r2 u2. u2 \<noteq> [] \<longrightarrow>
        gameScreen (afterImage (Resolved u2) (afterRiddle (Resolved r2) (render (dispatch RESET a'))))
          = Some initialScreen \<and> \<not> showResult initialScreen)"
proof (cases "i = answerIndex r")
  case True
  let ?l = "l\<lparr>selected := Some i, isCorrect := True, showResult := True\<rparr>"
  let ?st = "(localStorage a)\<lparr>newsquest_streak := Some (numberToString (Num (n + 1)))\<rparr>"
  let ?sv = "saveToHistory (save env) r u ?st"
  let ?a = "a\<lparr>gameScreen := Some ?l, streak := Num (n + 1), localStorage := snd ?sv, history := fst ?sv\<rparr>"
  have "handleSelect env i a = Inr ?a"
    using assms True
    by (simp add: handleSelect_def handleGameComplete_def updateStreak_def Let_def)
  then show ?thesis
    using True assms
    by (intro exI [of _ ?a] exI [of _ ?l])
       (simp add: subState_def handleSelect_def render_def gameScreenShown_def afterRiddle_def
          afterImage_def initialScreen_def)
next
  case False
  let ?l = "l\<lparr>selected := Some i, isCorrect := False, showResult := True\<rparr>"
  let ?st = "(localStorage a)\<lparr>newsquest_streak := Some (numberToString (Num 0))\<rparr>"
  let ?a = "a\<lparr>gameScreen := Some ?l, streak := Num 0, localStorage := ?st\<rparr>"
  have "handleSelect env i a = Inr ?a"
    using assms False
    by (simp add: handleSelect_def handleGameComplete_def updateStreak_def Let_def)
  then show ?thesis
    using False assms
    by (intro exI [of _ ?a] exI [of _ ?l])
       (simp add: subState_def handleSelect_def render_def gameScreenShown_def afterRiddle_def
          afterImage_def initialScreen_def)
qed

text \<open>The theorem at a freshly started round, with the right answer 2 and the wrong
  answer 0.\<close>

theorem first_selectAnswer_witness:
  "gameScreen playing_A = Some initialScreen \<and> \<not> showResult initialScreen \<and>
   riddle (gameState playing_A) = Some riddle_A \<and>
   imageUrl (gameState playing_A) = Some ''data:image/png;base64,AAAA'' \<and>
   streak playing_A = Num 0 \<and> streak_writable select_ok \<and> answerIndex riddle_A = 2 \<and>
   (\<exists>a'. handleSelect select_ok 2 playing_A = Inr a' \<and> streak a' = Num 1 \<and>
         map question (history a') = [''Q1''] \<and>
         map subState (case gameScreen a' of None \<Rightarrow> [] | Some l' \<Rightarrow> [l']) = [Solved]) \<and>
   (\<exists>a'. handleSelect select_ok 0 playing_A = Inr a' \<and> streak a' = Num 0 \<and> history a' = [] \<and>
         map subState (case gameScreen a' of None \<Rightarrow> [] | Some l' \<Rightarrow> [l']) = [Failed])"
  using first_selectAnswer [of playing_A initialScreen riddle_A "''data:image/png;base64,AAAA''" 0 select_ok 2]
    first_selectAnswer [of playing_A initialScreen riddle_A "''data:image/png;base64,AAAA''" 0 select_ok 0]
  by (simp add: playing_A_value select_eval store_eval initialScreen_def select_ok_def)


text \<open>
  Claim C1 fails where the storage refuses the streak write: \<^verbatim>\<open>updateStreak\<close> has no
  \<^verbatim>\<open>try\<close> around \<^verbatim>\<open>localStorage.setItem\<close>, so on the right answer 2 the exception leaves
  \<^verbatim>\<open>handleGameComplete\<close> before \<^verbatim>\<open>saveToHistory\<close> is reached, where the same round with
  an accepted write records the riddle. It also fails for a streak that was loaded as
  \<^verbatim>\<open>NaN\<close>: the right answer leaves it \<^verbatim>\<open>NaN\<close>.
\<close>

theorem correct_answer_not_recorded:
  "gameScreen playing_A = Some initialScreen \<and> \<not> showResult initialScreen \<and>
   riddle (gameState playing_A) = Some riddle_A \<and> answerIndex riddle_A = 2 \<and>
   handleSelect (select_ok\<lparr>streak_writable := False\<rparr>) 2 playing_A = Inl QuotaExceededError \<and>
   (\<exists>a'. handleSelect select_ok 2 playing_A = Inr a' \<and> streak a' = Num 1 \<and>
         map question (history a') = [''Q1'']) \<and>
   (\<exists>a'. handleSelect select_ok 2 (playing_A\<lparr>streak := NaN\<rparr>) = Inr a' \<and> streak a' = NaN)"
  by (simp add: playing_A_value select_eval store_eval initialScreen_def select_ok_def)

section \<open>Properties of the session state\<close>

text \<open>
  Claim C4. \<^verbatim>\<open>RESET\<close> followed by the re-render gives, from every state, the status
  \<^verbatim>\<open>idle\<close> with riddle, image, selected answer, hint count and error cleared and no game
  screen mounted (its selected choice and revealed hints are gone with it); the score,
  the streak, the history list and the storage are as before.
\<close>

theorem reset_clears_session:
  "status (gameState (render (dispatch RESET a))) = Idle \<and>
   riddle (gameState (render (dispatch RESET a))) = None \<and>
   imageUrl (gameState (render (dispatch RESET a))) = None \<and>
   selectedAnswer (gameState (render (dispatch RESET a))) = None \<and>
   hintsRevealed (gameState (render (dispatch RESET a))) = 0 \<and>
   error (gameState (render (dispatch RESET a))) = None \<and>
   gameScreen (render (dispatch RESET a)) = None \<and>
   score (gameState (render (dispatch RESET a))) = score (gameState a) \<and>
   streak (render (dispatch RESET a)) = streak a \<and>
   history (render (dispatch RESET a)) = history a \<and>
   localStorage (render (dispatch RESET a)) = localStorage a"
  by (simp add: render_def gameScreenShown_def)

text \<open>The theorem at a round in play.\<close>

theorem reset_clears_session_witness:
  "status (gameState playing_A) = Playing \<and> riddle (gameState playing_A) = Some riddle_A \<and>
   gameScreen playing_A = Some initialScreen \<and>
   status (gameState (render (dispatch RESET playing_A))) = Idle \<and>
   riddle (gameState (render (dispatch RESET playing_A))) = None \<and>
   gameScreen (render (dispatch RESET playing_A)) = None \<and>
   streak (render (dispatch RESET playing_A)) = Num 0"
  using reset_clears_session [of playing_A]
  by (simp add: playing_A_value)

lemma generateFrom_riddle_rejected:
  "generateRiddle sv tp d = Rejected m \<Longrightarrow>
   generateFrom sv tp d a =
     a\<lparr>gameState := (gameState a)\<lparr>status := Error_status,
           error := Some (or_default m ''An unexpected error occurred.'')\<rparr>,
       gameScreen := None\<rparr>"
  by (simp add: generateFrom_def afterRiddle_def onRejected_def render_def gameScreenShown_def)

lemma generateFrom_image_rejected:
  "generateRiddle sv tp d = Resolved rd \<Longrightarrow>
   generateRiddleImage sv (image_prompt rd) = Rejected m \<Longrightarrow>
   generateFrom sv tp d a =
     a\<lparr>gameState := (gameState a)\<lparr>status := Error_status, riddle := Some rd,
           error := Some (or_default m ''An unexpected error occurred.'')\<rparr>,
       gameScreen := None\<rparr>"
  by (simp add: generateFrom_def afterRiddle_def afterImage_def onRejected_def render_def
      gameScreenShown_def)

lemma handleStartGame_topic:
  "topic_used sv useTrending category a tp \<Longrightarrow>
   handleStartGame sv useTrending category a =
     generateFrom sv tp (app_difficulty a)
       (if useTrending then render (dispatch START_SEARCH a) else a)"
  by (simp add: handleStartGame_def topic_used_def render_def)

text \<open>
  Claim C5, as the code has it. When the topic fetch, the riddle generation or the image
  generation is rejected, \<^verbatim>\<open>handleStartGame\<close> ends with the status \<^verbatim>\<open>error\<close> and the
  message of the rejection (the default text when there is none), no game screen, and
  every other field as it was before the call, except that a riddle stored by
  \<^verbatim>\<open>RIDDLE_READY\<close> before the image generation was rejected stays in
  \<^verbatim>\<open>gameState.riddle\<close>.
\<close>

theorem pipeline_failure_keeps_state:
  "(startBGM sv = Resolved () \<and> fetchTrendingNews sv category = Rejected m \<longrightarrow>
      handleStartGame sv True category a =
        a\<lparr>gameState := (gameState a)\<lparr>status := Error_status,
              error := Some (or_default m ''An unexpected error occurred.'')\<rparr>,
          gameScreen := None\<rparr>) \<and>
   (topic_used sv useTrending category a tp \<and>
    generateRiddle sv tp (app_difficulty a) = Rejected m \<longrightarrow>
      handleStartGame sv useTrending category a =
        a\<lparr>gameState := (gameState a)\<lparr>status := Error_status,
              error := Some (or_default m ''An unexpected error occurred.'')\<rparr>,
          gameScreen := None\<rparr>) \<and>
   (topic_used sv useTrending category a tp \<and>
    generateRiddle sv tp (app_difficulty a) = Resolved rd \<and>
    generateRiddleImage sv (image_prompt rd) = Rejected m \<longrightarrow>
      handleStartGame sv useTrending category a =
        a\<lparr>gameState := (gameState a)\<lparr>status := Error_status, riddle := Some rd,
              error := Some (or_default m ''An unexpected error occurred.'')\<rparr>,
          gameScreen := None\<rparr>)"
proof (intro conjI impI)
  assume "startBGM sv = Resolved () \<and> fetchTrendingNews sv category = Rejected m"
  then show "handleStartGame sv True category a =
        a\<lparr>gameState := (gameState a)\<lparr>status := Error_status,
              error := Some (or_default m ''An unexpected error occurred.'')\<rparr>,
          gameScreen := None\<rparr>"
    by (simp add: handleStartGame_def onRejected_def render_def gameScreenShown_def)
next
  let ?a = "if useTrending then render (dispatch START_SEARCH a) else a"
  assume h: "topic_used sv useTrending category a tp \<and>
    generateRiddle sv tp (app_difficulty a) = Rejected m"
  then have t: "topic_used sv useTrending category a tp"
    and g: "generateRiddle sv tp (app_difficulty a) = Rejected m"
    by simp_all
  have "handleStartGame sv useTrending category a = generateFrom sv tp (app_difficulty a) ?a"
    by (rule handleStartGame_topic [OF t])
  also have "\<dots> = ?a\<lparr>gameState := (gameState ?a)\<lparr>status := Error_status,
              error := Some (or_default m ''An unexpected error occurred.'')\<rparr>,
          gameScreen := None\<rparr>"
    by (rule generateFrom_riddle_rejected [OF g])
  finally show "handleStartGame sv useTrending category a =
        a\<lparr>gameState := (gameState a)\<lparr>status := Error_status,
              error := Some (or_default m ''An unexpected error occurred.'')\<rparr>,
          gameScreen := None\<rparr>"
    by (simp add: render_def)
next
  let ?a = "if useTrending then render (dispatch START_SEARCH a) else a"
  assume h: "topic_used sv useTrending category a tp \<and>
    generateRiddle sv tp (app_difficulty a) = Resolved rd \<and>
    generateRiddleImage sv (image_prompt rd) = Rejected m"
  then have t: "topic_used sv useTrending category a tp"
    and g: "generateRiddle sv tp (app_difficulty a) = Resolved rd"
    and i: "generateRiddleImage sv (image_prompt rd) = Rejected m"
    by simp_all
  have "handleStartGame sv useTrending category a = generateFrom sv tp (app_difficulty a) ?a"
    by (rule handleStartGame_topic [OF t])
  also have "\<dots> = ?a\<lparr>gameState := (gameState ?a)\<lparr>status := Error_status, riddle := Some rd,
              error := Some (or_default m ''An unexpected error occurred.'')\<rparr>,
          gameScreen := None\<rparr>"
    by (rule generateFrom_image_rejected [OF g i])
  finally show "handleStartGame sv useTrending category a =
        a\<lparr>gameState := (gameState a)\<lparr>status := Error_status, riddle := Some rd,
              error := Some (or_default m ''An unexpected error occurred.'')\<rparr>,
          gameScreen := None\<rparr>"
    by (simp add: render_def)
qed

text \<open>The theorem at a rejected fetch, a rejected riddle generation with no message, and
  a rejected image generation.\<close>

theorem pipeline_failure_keeps_state_witness:
  "startBGM sample_services = Resolved () \<and>
   status (gameState (handleStartGame
      (sample_services\<lparr>fetchTrendingNews := (\<lambda>c. Rejected (Some ''Could not fetch trending news. Please try a manual topic.''))\<rparr>)
      True None (startApp empty_storage))) = Error_status \<and>
   error (gameState (handleStartGame
      (sample_services\<lparr>fetchTrendingNews := (\<lambda>c. Rejected (Some ''Could not fetch trending news. Please try a manual topic.''))\<rparr>)
      True None (startApp empty_storage))) = Some ''Could not fetch trending news. Please try a manual topic.'' \<and>
   topic_used (sample_services\<lparr>generateRiddle := (\<lambda>t d. Rejected None)\<rparr>) False None
      ((startApp empty_storage)\<lparr>customTopic := ''cats''\<rparr>) ''cats'' \<and>
   error (gameState (handleStartGame (sample_services\<lparr>generateRiddle := (\<lambda>t d. Rejected None)\<rparr>) False None
      ((startApp empty_storage)\<lparr>customTopic := ''cats''\<rparr>))) = Some ''An unexpected error occurred.'' \<and>
   topic_used failing_image_services True None (startApp empty_storage) ''Fox lands on the moon'' \<and>
   generateRiddle failing_image_services ''Fox lands on the moon'' Medium = Resolved riddle_A \<and>
   handleStartGame failing_image_services True None (startApp empty_storage) =
     (startApp empty_storage)\<lparr>gameState := (gameState (startApp empty_storage))\<lparr>status := Error_status,
        riddle := Some riddle_A, error := Some ''Failed to generate the riddle image.''\<rparr>\<rparr>"
  using pipeline_failure_keeps_state [of
      "sample_services\<lparr>fetchTrendingNews := (\<lambda>c. Rejected (Some ''Could not fetch trending news. Please try a manual topic.''))\<rparr>"
      None "Some ''Could not fetch trending news. Please try a manual topic.''" "startApp empty_storage" True "''x''" riddle_A]
    pipeline_failure_keeps_state [of "sample_services\<lparr>generateRiddle := (\<lambda>t d. Rejected None)\<rparr>"
      None None "(startApp empty_storage)\<lparr>customTopic := ''cats''\<rparr>" False "''cats''" riddle_A]
    pipeline_failure_keeps_state [of failing_image_services None
      "Some ''Failed to generate the riddle image.''" "startApp empty_storage" True
      "''Fox lands on the moon''" riddle_A]
  by (simp add: app_eval store_eval topic_used_def isWhiteSpace_def)

text \<open>
  Claim C5 as stated fails: after the image generation is rejected the session is in
  \<^verbatim>\<open>error\<close> and still holds the riddle of the aborted pipeline.
\<close>

theorem pipeline_failure_counterexample:
  "status (gameState (handleStartGame failing_image_services True (Some ''Technology'')
       (startApp empty_storage))) = Error_status \<and>
   error (gameState (handleStartGame failing_image_services True (Some ''Technology'')
       (startApp empty_storage))) = Some ''Failed to generate the riddle image.'' \<and>
   riddle (gameState (startApp empty_storage)) = None \<and>
   riddle (gameState (handleStartGame failing_image_services True (Some ''Technology'')
       (startApp empty_storage))) = Some riddle_A"
  by (simp add: app_eval store_eval)

text \<open>
  Claim C7, as the code has it. No token is checked: a result that arrives after
  \<^verbatim>\<open>RESET\<close> is applied to the idle session. A late riddle moves it to
  \<^verbatim>\<open>generating_image\<close> and is stored; a late image moves it to \<^verbatim>\<open>playing\<close> and is
  stored.
\<close>

theorem late_result_is_applied:
  "status (gameState (render (dispatch RESET a))) = Idle \<and>
   status (gameState (afterRiddle (Resolved rd) (render (dispatch RESET a)))) = Generating_image \<and>
   riddle (gameState (afterRiddle (Resolved rd) (render (dispatch RESET a)))) = Some rd \<and>
   status (gameState (afterImage (Resolved u) (render (dispatch RESET a)))) = Playing \<and>
   imageUrl (gameState (afterImage (Resolved u) (render (dispatch RESET a)))) = Some u \<and>
   status (gameState (afterImage (Resolved u) (afterRiddle (Resolved rd) (render (dispatch RESET a)))))
     = Playing \<and>
   riddle (gameState (afterImage (Resolved u) (afterRiddle (Resolved rd) (render (dispatch RESET a)))))
     = Some rd \<and>
   imageUrl (gameState (afterImage (Resolved u) (afterRiddle (Resolved rd) (render (dispatch RESET a)))))
     = Some u"
  by (simp add: afterRiddle_def afterImage_def render_def gameScreenShown_def)

text \<open>
  Claim C7 as stated fails: a manual game is started, \<^verbatim>\<open>RESET\<close> returns the session to
  \<^verbatim>\<open>idle\<close> while the riddle is awaited, and the riddle that then arrives takes the
  session out of \<^verbatim>\<open>idle\<close> and is stored.
\<close>

theorem late_result_counterexample:
  "status (gameState (render (dispatch START_GEN_RIDDLE ((startApp empty_storage)\<lparr>customTopic := ''cats''\<rparr>))))
     = Generating_riddle \<and>
   status (gameState (render (dispatch RESET
     (render (dispatch START_GEN_RIDDLE ((startApp empty_storage)\<lparr>customTopic := ''cats''\<rparr>)))))) = Idle \<and>
   status (gameState (afterRiddle (Resolved riddle_A) (render (dispatch RESET
     (render (dispatch START_GEN_RIDDLE ((startApp empty_storage)\<lparr>customTopic := ''cats''\<rparr>)))))))
     = Generating_image \<and>
   riddle (gameState (afterRiddle (Resolved riddle_A) (render (dispatch RESET
     (render (dispatch START_GEN_RIDDLE ((startApp empty_storage)\<lparr>customTopic := ''cats''\<rparr>)))))))
     = Some riddle_A"
  by (simp add: afterRiddle_def render_def gameScreenShown_def app_eval store_eval)


section \<open>Reading the storage back\<close>

text \<open>A stored history that \<^verbatim>\<open>JSON.parse\<close> rejects reads as the empty list.\<close>

lemma getHistory_unparseable:
  "newsquest_solved_history st = Some (Unparseable s) \<Longrightarrow> getHistory st = []"
  by (simp add: getHistory_def)

text \<open>
  Claim C8 fails for the streak: a stored streak without a leading digit is loaded as
  \<^verbatim>\<open>NaN\<close>, not as 0; a stored number and a missing key are loaded as expected.
\<close>

theorem stored_streak_not_a_number:
  "parseInt10 ''abc'' = NaN \<and>
   streak (startApp (empty_storage\<lparr>newsquest_streak := Some ''abc''\<rparr>)) = NaN \<and>
   streak (startApp (empty_storage\<lparr>newsquest_streak := Some ''7''\<rparr>)) = Num 7 \<and>
   streak (startApp empty_storage) = Num 0"
  by (simp add: startApp_def loadEffect_def parseInt10_def isWhiteSpace_def isDigit_def digit_of_def
      digits_value_def empty_storage_def Let_def)


section \<open>Properties of the riddle client\<close>

lemma set_prop_takes: "takes_props v \<Longrightarrow> \<exists>v'. set_prop v k x = Inr v' \<and> takes_props v' \<and>
   get_prop v' = (get_prop v)(k \<mapsto> x)"
  by (cases v) (auto simp: update_conv')

lemma set_prop_fails: "\<not> takes_props v \<Longrightarrow> set_prop v k x = Inl TypeError"
  by (cases v) auto

lemma riddle_try_ok:
  assumes "resp = Response (Some t)" "t \<noteq> []" "parse t = Some v" "takes_props v"
  shows "\<exists>data. riddle_try parse resp tp d = Inr data \<and>
     get_prop data = (get_prop v)(''news_topic'' \<mapsto> JStr tp, ''difficulty'' \<mapsto> JStr (difficulty_text d))"
proof -
  from set_prop_takes [OF assms(4), of "''news_topic''" "JStr tp"]
  obtain v1 where v1: "set_prop v ''news_topic'' (JStr tp) = Inr v1" "takes_props v1"
    "get_prop v1 = (get_prop v)(''news_topic'' \<mapsto> JStr tp)" by blast
  from set_prop_takes [OF v1(2), of "''difficulty''" "JStr (difficulty_text d)"]
  obtain v2 where v2: "set_prop v1 ''difficulty'' (JStr (difficulty_text d)) = Inr v2"
    "get_prop v2 = (get_prop v1)(''difficulty'' \<mapsto> JStr (difficulty_text d))" by blast
  show ?thesis
    using assms v1 v2 by (simp add: riddle_try_def)
qed

lemma riddle_try_fails:
  assumes "\<not> (\<exists>t v. resp = Response (Some t) \<and> t \<noteq> [] \<and> parse t = Some v \<and> takes_props v)"
  shows "\<exists>e. riddle_try parse resp tp d = Inl e"
proof (cases resp)
  case Thrown
  then show ?thesis by (simp add: riddle_try_def)
next
  case (Response payload)
  show ?thesis
  proof (cases payload)
    case None
    then show ?thesis using Response by (simp add: riddle_try_def)
  next
    case (Some t)
    show ?thesis
    proof (cases "t = []")
      case True
      then show ?thesis using Response Some by (simp add: riddle_try_def)
    next
      case False
      show ?thesis
      proof (cases "parse t")
        case None
        then show ?thesis using Response Some False by (simp add: riddle_try_def)
      next
        case (Some v)
        then have "\<not> takes_props v" using assms Response \<open>payload = Some t\<close> False by simp
        then show ?thesis
          using Response \<open>payload = Some t\<close> False Some by (simp add: riddle_try_def set_prop_fails)
      qed
    qed
  qed
qed

text \<open>
  Claim C6, as the code has it. \<^verbatim>\<open>generateRiddleFromTopic\<close> fails exactly when the call
  is rejected, the text is absent or empty, \<^verbatim>\<open>JSON.parse\<close> rejects it, or the parsed value
  is \<^verbatim>\<open>null\<close> or a primitive value; the failure is always the error
  \<^verbatim>\<open>"Failed to generate riddle logic."\<close>. Every parsed object or array is returned, with
  \<^verbatim>\<open>news_topic\<close> and \<^verbatim>\<open>difficulty\<close> set to the arguments and every other property as
  parsed; nothing compares it with the schema.
\<close>

theorem generateRiddle_fails_iff_unusable:
  "((\<exists>e. generateRiddleFromTopic parse resp tp d = Inl e) \<longleftrightarrow>
      \<not> (\<exists>t v. resp = Response (Some t) \<and> t \<noteq> [] \<and> parse t = Some v \<and> takes_props v)) \<and>
   (\<forall>e. generateRiddleFromTopic parse resp tp d = Inl e \<longrightarrow>
      e = Error ''Failed to generate riddle logic.'') \<and>
   (\<forall>t v. resp = Response (Some t) \<and> t \<noteq> [] \<and> parse t = Some v \<and> takes_props v \<longrightarrow>
      (\<exists>data. generateRiddleFromTopic parse resp tp d = Inr data \<and>
         get_prop data ''news_topic'' = Some (JStr tp) \<and>
         get_prop data ''difficulty'' = Some (JStr (difficulty_text d)) \<and>
         (\<forall>k. k \<noteq> ''news_topic'' \<and> k \<noteq> ''difficulty'' \<longrightarrow> get_prop data k = get_prop v k)))"
proof -
  have ok: "\<exists>data. generateRiddleFromTopic parse resp tp d = Inr data \<and>
         get_prop data ''news_topic'' = Some (JStr tp) \<and>
         get_prop data ''difficulty'' = Some (JStr (difficulty_text d)) \<and>
         (\<forall>k. k \<noteq> ''news_topic'' \<and> k \<noteq> ''difficulty'' \<longrightarrow> get_prop data k = get_prop v k)"
    if "resp = Response (Some t) \<and> t \<noteq> [] \<and> parse t = Some v \<and> takes_props v" for t v
  proof -
    from that riddle_try_ok [of resp t parse v tp d]
    obtain data where "riddle_try parse resp tp d = Inr data"
      "get_prop data = (get_prop v)(''news_topic'' \<mapsto> JStr tp, ''difficulty'' \<mapsto> JStr (difficulty_text d))"
      by blast
    then show ?thesis
      by (intro exI [of _ data]) (simp add: generateRiddleFromTopic_def)
  qed
  have bad: "\<exists>e. generateRiddleFromTopic parse resp tp d = Inl e"
    if "\<not> (\<exists>t v. resp = Response (Some t) \<and> t \<noteq> [] \<and> parse t = Some v \<and> takes_props v)"
    using riddle_try_fails [OF that, of tp d] by (auto simp: generateRiddleFromTopic_def)
  have msg: "e = Error ''Failed to generate riddle logic.''"
    if "generateRiddleFromTopic parse resp tp d = Inl e" for e
    using that by (simp add: generateRiddleFromTopic_def split: sum.splits)
  have iff: "(\<exists>e. generateRiddleFromTopic parse resp tp d = Inl e) \<longleftrightarrow>
      \<not> (\<exists>t v. resp = Response (Some t) \<and> t \<noteq> [] \<and> parse t = Some v \<and> takes_props v)"
  proof
    assume l: "\<exists>e. generateRiddleFromTopic parse resp tp d = Inl e"
    show "\<not> (\<exists>t v. resp = Response (Some t) \<and> t \<noteq> [] \<and> parse t = Some v \<and> takes_props v)"
    proof
      assume "\<exists>t v. resp = Response (Some t) \<and> t \<noteq> [] \<and> parse t = Some v \<and> takes_props v"
      then obtain t v where "resp = Response (Some t) \<and> t \<noteq> [] \<and> parse t = Some v \<and> takes_props v"
        by blast
      from ok [OF this] obtain data where "generateRiddleFromTopic parse resp tp d = Inr data"
        by blast
      with l show False by simp
    qed
  next
    assume "\<not> (\<exists>t v. resp = Response (Some t) \<and> t \<noteq> [] \<and> parse t = Some v \<and> takes_props v)"
    then show "\<exists>e. generateRiddleFromTopic parse resp tp d = Inl e" by (rule bad)
  qed
  show ?thesis
  proof (intro conjI allI impI)
    show "(\<exists>e. generateRiddleFromTopic parse resp tp d = Inl e) \<longleftrightarrow>
      \<not> (\<exists>t v. resp = Response (Some t) \<and> t \<noteq> [] \<and> parse t = Some v \<and> takes_props v)"
      by (rule iff)
  next
    fix e assume "generateRiddleFromTopic parse resp tp d = Inl e"
    then show "e = Error ''Failed to generate riddle logic.''" by (rule msg)
  next
    fix t v assume "resp = Response (Some t) \<and> t \<noteq> [] \<and> parse t = Some v \<and> takes_props v"
    then show "\<exists>data. generateRiddleFromTopic parse resp tp d = Inr data \<and>
         get_prop data ''news_topic'' = Some (JStr tp) \<and>
         get_prop data ''difficulty'' = Some (JStr (difficulty_text d)) \<and>
         (\<forall>k. k \<noteq> ''news_topic'' \<and> k \<noteq> ''difficulty'' \<longrightarrow> get_prop data k = get_prop v k)"
      by (rule ok)
  qed
qed

lemma sample_parse_payload: "sample_parse sample_payload = Some sample_value"
  by (simp add: sample_parse_def)

lemma sample_value_conforms: "riddleResponseSchema sample_value"
  by (simp add: sample_value_def riddleResponseSchema_def is_string_def is_string_array_def is_integer_def)

lemma sample_value_shape: "length (choices_of sample_value) = 2 \<and> answerIndex_of sample_value = 5"
  by (simp add: sample_value_def choices_of_def answerIndex_of_def)

lemma sample_payload_nonempty: "sample_payload \<noteq> []"
  by (simp add: sample_payload_def)

lemma generateRiddle_sample: "generateRiddleFromTopic sample_parse (Response (Some sample_payload)) ''cats'' Medium =
     Inr (JObj [(''image_prompt'', JStr ''p''), (''riddle_question'', JStr ''q''),
           (''choices'', JArr [JStr ''x'', JStr ''y''] []), (''answerIndex'', JNum 5),
           (''hints'', JArr [] []), (''fun_fact'', JStr ''f''),
           (''news_topic'', JStr ''cats''), (''difficulty'', JStr ''medium'')])"
  by (simp add: generateRiddleFromTopic_def riddle_try_def sample_parse_payload sample_payload_nonempty sample_value_def)

lemma sample_parse_other: "sample_parse ''not json'' = None"
  by (simp add: sample_parse_def sample_payload_def)

lemma sample_value_invalid: "\<not> spec_valid_RiddleRecord sample_value"
  by (simp add: spec_valid_RiddleRecord_def sample_value_shape)

text \<open>The theorem at the sample payload, at a text that is not JSON and at a response
  without text.\<close>

theorem generateRiddle_fails_iff_unusable_witness:
  "sample_payload \<noteq> [] \<and> sample_parse sample_payload = Some sample_value \<and>
   takes_props sample_value \<and>
   (\<exists>data. generateRiddleFromTopic sample_parse (Response (Some sample_payload)) ''cats'' Medium = Inr data \<and>
      get_prop data ''news_topic'' = Some (JStr ''cats'') \<and>
      get_prop data ''answerIndex'' = Some (JNum 5)) \<and>
   generateRiddleFromTopic sample_parse (Response (Some ''not json'')) ''cats'' Medium =
     Inl (Error ''Failed to generate riddle logic.'') \<and>
   generateRiddleFromTopic sample_parse (Response None) ''cats'' Medium =
     Inl (Error ''Failed to generate riddle logic.'')"
proof -
  note ok = generateRiddle_fails_iff_unusable
    [of sample_parse "Response (Some sample_payload)" "''cats''" Medium]
  note bad1 = generateRiddle_fails_iff_unusable
    [of sample_parse "Response (Some ''not json'')" "''cats''" Medium]
  note bad2 = generateRiddle_fails_iff_unusable [of sample_parse "Response None" "''cats''" Medium]
  have tp: "takes_props sample_value"
    by (simp add: sample_value_def)
  have h: "Response (Some sample_payload) = Response (Some sample_payload) \<and> sample_payload \<noteq> [] \<and>
      sample_parse sample_payload = Some sample_value \<and> takes_props sample_value"
    using sample_payload_nonempty sample_parse_payload tp by simp
  from ok [THEN conjunct2, THEN conjunct2, rule_format, OF h]
  obtain data where d: "generateRiddleFromTopic sample_parse (Response (Some sample_payload)) ''cats'' Medium = Inr data"
    "get_prop data ''news_topic'' = Some (JStr ''cats'')"
    "\<forall>k. k \<noteq> ''news_topic'' \<and> k \<noteq> ''difficulty'' \<longrightarrow> get_prop data k = get_prop sample_value k"
    by blast
  have "get_prop data ''answerIndex'' = get_prop sample_value ''answerIndex''"
    using d(3) by simp
  then have a: "get_prop data ''answerIndex'' = Some (JNum 5)"
    by (simp add: sample_value_def)
  have n1: "\<not> (\<exists>t v. Response (Some ''not json'') = Response (Some t) \<and> t \<noteq> [] \<and>
      sample_parse t = Some v \<and> takes_props v)"
    by (simp add: sample_parse_other)
  from bad1 [THEN conjunct1] n1 obtain e1
    where e1: "generateRiddleFromTopic sample_parse (Response (Some ''not json'')) ''cats'' Medium = Inl e1"
    by blast
  from bad1 [THEN conjunct2, THEN conjunct1, rule_format, OF e1] e1
  have f1: "generateRiddleFromTopic sample_parse (Response (Some ''not json'')) ''cats'' Medium =
     Inl (Error ''Failed to generate riddle logic.'')"
    by simp
  have n2: "\<not> (\<exists>t v. Response None = Response (Some t) \<and> t \<noteq> [] \<and>
      sample_parse t = Some v \<and> takes_props v)"
    by simp
  from bad2 [THEN conjunct1] n2 obtain e2
    where e2: "generateRiddleFromTopic sample_parse (Response None) ''cats'' Medium = Inl e2"
    by blast
  from bad2 [THEN conjunct2, THEN conjunct1, rule_format, OF e2] e2
  have f2: "generateRiddleFromTopic sample_parse (Response None) ''cats'' Medium =
     Inl (Error ''Failed to generate riddle logic.'')"
    by simp
  show ?thesis
    using sample_payload_nonempty sample_parse_payload tp d(1,2) a f1 f2 by blast
qed

text \<open>
  Claim C6 as stated fails: the sample payload has 2 choices and the answer index 5, so
  it is not a valid record, and it is returned with the two stamps.
\<close>

theorem generateRiddle_counterexample:
  "generateRiddleFromTopic sample_parse (Response (Some sample_payload)) ''cats'' Medium =
     Inr (JObj [(''image_prompt'', JStr ''p''), (''riddle_question'', JStr ''q''),
           (''choices'', JArr [JStr ''x'', JStr ''y''] []), (''answerIndex'', JNum 5),
           (''hints'', JArr [] []), (''fun_fact'', JStr ''f''),
           (''news_topic'', JStr ''cats''), (''difficulty'', JStr ''medium'')]) \<and>
   riddleResponseSchema sample_value \<and>
   length (choices_of sample_value) = 2 \<and> answerIndex_of sample_value = 5 \<and>
   \<not> spec_valid_RiddleRecord sample_value"
  using generateRiddle_sample sample_value_conforms sample_value_shape sample_value_invalid by simp


end
